theory Spec2Isabelle
  imports Complex_Main "HOL-Library.Word" "HOL-Library.Char_ord" "HOL-Library.List_Lexorder"
begin

unbundle bit_operations_syntax

section \<open>Standard remote keys and the Samsung key map\<close>

text \<open>
  \<^verbatim>\<open>StandardRemoteKey\<close> (handlers/types.ts) is a closed union of 31 string literals;
  it is a datatype with one constructor per literal, in the order of the declaration
  (\<open>Key_back\<close> is the literal \<^verbatim>\<open>'back'\<close>, and so on: several of the literals are
  reserved words here).
\<close>

datatype StandardRemoteKey =
    Key_power | Key_source
  | Key_up | Key_down | Key_left | Key_right | Key_enter | Key_back
  | Key_home | Key_menu | Key_info
  | Key_volume_up | Key_volume_down | Key_mute
  | Key_channel_up | Key_channel_down
  | Key_num_0 | Key_num_1 | Key_num_2 | Key_num_3 | Key_num_4
  | Key_num_5 | Key_num_6 | Key_num_7 | Key_num_8 | Key_num_9
  | Key_play | Key_pause | Key_stop | Key_rewind | Key_fast_forward

text \<open>
  \<^verbatim>\<open>SAMSUNG_KEY_MAP\<close> (handlers/samsung/keys.ts) is an object literal; it is the
  association list of its properties, in source order. A property read
  \<^verbatim>\<open>SAMSUNG_KEY_MAP[key]\<close> is \<open>map_of\<close>, where \<open>None\<close> is JavaScript's
  \<^verbatim>\<open>undefined\<close>.
\<close>

definition SAMSUNG_KEY_MAP :: "(StandardRemoteKey \<times> string) list" where
  "SAMSUNG_KEY_MAP =
    [(Key_power, ''KEY_POWER''), (Key_source, ''KEY_SOURCE''),
     (Key_up, ''KEY_UP''), (Key_down, ''KEY_DOWN''), (Key_left, ''KEY_LEFT''), (Key_right, ''KEY_RIGHT''),
     (Key_enter, ''KEY_ENTER''), (Key_back, ''KEY_RETURN''),
     (Key_home, ''KEY_HOME''), (Key_menu, ''KEY_MENU''), (Key_info, ''KEY_INFO''),
     (Key_volume_up, ''KEY_VOLUP''), (Key_volume_down, ''KEY_VOLDOWN''), (Key_mute, ''KEY_MUTE''),
     (Key_channel_up, ''KEY_CHUP''), (Key_channel_down, ''KEY_CHDOWN''),
     (Key_num_0, ''KEY_0''), (Key_num_1, ''KEY_1''), (Key_num_2, ''KEY_2''), (Key_num_3, ''KEY_3''),
     (Key_num_4, ''KEY_4''), (Key_num_5, ''KEY_5''), (Key_num_6, ''KEY_6''), (Key_num_7, ''KEY_7''),
     (Key_num_8, ''KEY_8''), (Key_num_9, ''KEY_9''),
     (Key_play, ''KEY_PLAY''), (Key_pause, ''KEY_PAUSE''), (Key_stop, ''KEY_STOP''),
     (Key_rewind, ''KEY_REWIND''), (Key_fast_forward, ''KEY_FF'')]"

text \<open>\<^verbatim>\<open>SAMSUNG_SUPPORTED_KEYS = Object.keys(SAMSUNG_KEY_MAP)\<close>.\<close>

definition SAMSUNG_SUPPORTED_KEYS :: "StandardRemoteKey list" where
  "SAMSUNG_SUPPORTED_KEYS = map fst SAMSUNG_KEY_MAP"

text \<open>
  A promise settles with a value or rejects with an error message; the same type serves
  for a call that returns or throws.
\<close>

datatype 'a outcome = Returns 'a | Throws string

text \<open>
  What \<^verbatim>\<open>SamsungTizenHandler.sendKey\<close> sees of its surroundings: whether
  \<^verbatim>\<open>Platform.OS === 'android'\<close> and the native module \<^verbatim>\<open>SamsungTvRemote\<close> exists,
  and what the native \<^verbatim>\<open>sendKey\<close> does with a key code.
\<close>

record native_env =
  androidWithModule :: bool
  nativeSendKey :: "string \<Rightarrow> bool outcome"

text \<open>
  The three exits of \<^verbatim>\<open>SamsungTizenHandler.sendKey\<close>, kept apart so that the branch
  taken can be named: no native module, no (or an empty) map entry, or the native call
  with the mapped code.
\<close>

datatype sendKey_branch = NoNativeModule | UnmappedKey | NativeCall string

definition sendKey_branch :: "native_env \<Rightarrow> StandardRemoteKey \<Rightarrow> sendKey_branch" where
  "sendKey_branch env key =
    (if \<not> androidWithModule env then NoNativeModule
     else case map_of SAMSUNG_KEY_MAP key of
            None \<Rightarrow> UnmappedKey
          | Some samsungKey \<Rightarrow> if samsungKey = [] then UnmappedKey else NativeCall samsungKey)"

definition samsung_sendKey :: "native_env \<Rightarrow> StandardRemoteKey \<Rightarrow> bool" where
  "samsung_sendKey env key =
    (case sendKey_branch env key of
       NoNativeModule \<Rightarrow> False
     | UnmappedKey \<Rightarrow> False
     | NativeCall samsungKey \<Rightarrow>
         (case nativeSendKey env samsungKey of Returns b \<Rightarrow> b | Throws e \<Rightarrow> False))"

definition samsung_getSupportedKeys :: "StandardRemoteKey list" where
  "samsung_getSupportedKeys = SAMSUNG_SUPPORTED_KEYS"

section \<open>Subnet fallback scan\<close>

text \<open>
  Address strings are lists of 8-bit characters. \<^verbatim>\<open>split(".")\<close> (Kotlin and
  JavaScript agree for a one-character separator) cuts at every dot and keeps empty
  parts; the result is never empty.
\<close>

fun splitDot :: "string \<Rightarrow> string list" where
  "splitDot [] = [[]]"
| "splitDot (c # cs) =
    (if c = CHR ''.'' then [] # splitDot cs
     else (case splitDot cs of [] \<Rightarrow> [[c]] | p # ps \<Rightarrow> (c # p) # ps))"

text \<open>
  The decimal rendering of an integer, as Kotlin's \<^verbatim>\<open>"$i"\<close> and JavaScript's
  \<^verbatim>\<open>`${i}`\<close> give it for an integer \<open>i\<close>: no leading zeros, a minus sign for a negative
  number.
\<close>

definition digitChar :: "nat \<Rightarrow> char" where
  "digitChar d = ''0123456789'' ! d"

fun showNat :: "nat \<Rightarrow> string" where
  "showNat n = (if n < 10 then [digitChar n] else showNat (n div 10) @ [digitChar (n mod 10)])"

declare showNat.simps [simp del]

definition intToString :: "int \<Rightarrow> string" where
  "intToString i = (if i < 0 then CHR ''-'' # showNat (nat (- i)) else showNat (nat i))"

text \<open>The value of a decimal digit character, \<open>None\<close> for any other character.\<close>

definition digitOf :: "char \<Rightarrow> nat option" where
  "digitOf c = (let k = (of_char c :: nat) in if 48 \<le> k \<and> k \<le> 57 then Some (k - 48) else None)"

fun digitsValue :: "nat \<Rightarrow> string \<Rightarrow> nat option" where
  "digitsValue acc [] = Some acc"
| "digitsValue acc (c # cs) =
    (case digitOf c of None \<Rightarrow> None | Some d \<Rightarrow> digitsValue (10 * acc + d) cs)"

text \<open>
  Kotlin's \<^verbatim>\<open>String.toIntOrNull()\<close> (standard library, radix 10): an optional sign
  (a first character below \<^verbatim>\<open>'0'\<close> must be \<^verbatim>\<open>'-'\<close> or \<^verbatim>\<open>'+'\<close> and must be followed by
  something), then decimal digits only, and the value must fit a 32-bit \<^verbatim>\<open>Int\<close>;
  anything else is \<^verbatim>\<open>null\<close>.
\<close>

definition toIntOrNull :: "string \<Rightarrow> int option" where
  "toIntOrNull s =
    (case s of
       [] \<Rightarrow> None
     | firstChar # rest \<Rightarrow>
         if (of_char firstChar :: nat) < 48 then
           (if rest = [] then None
            else if firstChar = CHR ''-'' then
              (case digitsValue 0 rest of
                 None \<Rightarrow> None
               | Some n \<Rightarrow> if n \<le> 2147483648 then Some (- int n) else None)
            else if firstChar = CHR ''+'' then
              (case digitsValue 0 rest of
                 None \<Rightarrow> None
               | Some n \<Rightarrow> if n \<le> 2147483647 then Some (int n) else None)
            else None)
         else
           (case digitsValue 0 s of
              None \<Rightarrow> None
            | Some n \<Rightarrow> if n \<le> 2147483647 then Some (int n) else None))"

text \<open>
  \<^verbatim>\<open>SamsungTvClient.scanSubnetForTvPorts\<close> (Kotlin). \<open>scanProbeIps\<close> is the list of
  addresses \<^verbatim>\<open>probeIp\<close> the loop submits to the executor, in loop order; its argument
  is what \<^verbatim>\<open>getDeviceIpAddress()\<close> returned (\<open>None\<close> for \<^verbatim>\<open>null\<close>). The three early
  \<^verbatim>\<open>return emptyList()\<close> exits submit no probe.
\<close>

definition scanProbeIps :: "string option \<Rightarrow> string list" where
  "scanProbeIps deviceIp =
    (case deviceIp of
       None \<Rightarrow> []
     | Some ip \<Rightarrow>
        (case splitDot ip of
           [p0, p1, p2, p3] \<Rightarrow>
             (case toIntOrNull p3 of
                None \<Rightarrow> []
              | Some myLastOctet \<Rightarrow>
                  (let subnet = p0 @ ''.'' @ p1 @ ''.'' @ p2
                   in map (\<lambda>i. subnet @ ''.'' @ intToString i)
                        (filter (\<lambda>i. i \<noteq> myLastOctet) [1..60])))
         | _ \<Rightarrow> []))"

text \<open>
  The scan's result: the probed addresses whose connect to port 8001 succeeded in time
  (\<open>portOpen\<close>), collected in a set and returned sorted.
\<close>

definition scanSubnetForTvPorts :: "(string \<Rightarrow> bool) \<Rightarrow> string option \<Rightarrow> string list" where
  "scanSubnetForTvPorts portOpen deviceIp =
     sorted_list_of_set (set (filter portOpen (scanProbeIps deviceIp)))"

text \<open>
  JavaScript's \<^verbatim>\<open>parseInt(s, 10)\<close>: leading white space is skipped, one sign is read,
  then the longest prefix of decimal digits; with no digit the result is \<^verbatim>\<open>NaN\<close>
  (\<open>None\<close>). What follows the digits is ignored.
\<close>

definition isJsWhiteSpace :: "char \<Rightarrow> bool" where
  "isJsWhiteSpace c = ((of_char c :: nat) \<in> {9, 10, 11, 12, 13, 32, 160})"

definition isDecimalDigit :: "char \<Rightarrow> bool" where
  "isDecimalDigit c = (digitOf c \<noteq> None)"

definition parseInt10 :: "string \<Rightarrow> int option" where
  "parseInt10 s =
    (let t = dropWhile isJsWhiteSpace s;
         neg = (case t of c # r \<Rightarrow> c = CHR ''-'' | [] \<Rightarrow> False);
         u = (case t of c # r \<Rightarrow> if c = CHR ''-'' \<or> c = CHR ''+'' then r else t | [] \<Rightarrow> t);
         ds = takeWhile isDecimalDigit u
     in case (ds, digitsValue 0 ds) of
          (d # _, Some n) \<Rightarrow> Some (if neg then - int n else int n)
        | _ \<Rightarrow> None)"

text \<open>
  \<^verbatim>\<open>HandlerRegistry.generateSubnetIps\<close> (registry.ts). \<^verbatim>\<open>i !== myLastOctet\<close> is true
  for every \<open>i\<close> when \<^verbatim>\<open>myLastOctet\<close> is \<^verbatim>\<open>NaN\<close>.
\<close>

definition generateSubnetIps :: "string \<Rightarrow> string list" where
  "generateSubnetIps deviceIp =
    (case splitDot deviceIp of
       [p0, p1, p2, p3] \<Rightarrow>
         (let subnet = p0 @ ''.'' @ p1 @ ''.'' @ p2;
              myLastOctet = parseInt10 p3
          in map (\<lambda>i. subnet @ ''.'' @ intToString i)
               (filter (\<lambda>i. Some i \<noteq> myLastOctet) [1..50]))
     | _ \<Rightarrow> [])"

text \<open>Joining parts with dots undoes \<open>splitDot\<close>; used to state what a split means.\<close>

fun joinDot :: "string list \<Rightarrow> string" where
  "joinDot [] = []"
| "joinDot [p] = p"
| "joinDot (p # q # ps) = p @ ''.'' @ joinDot (q # ps)"


section \<open>Devices, JSON values and identification\<close>

text \<open>\<^verbatim>\<open>TvBrand\<close> (handlers/types.ts).\<close>

datatype TvBrand = samsung_tizen | lg_webos | roku | android_tv | vizio | fire_tv | unknown

text \<open>
  A JavaScript value as \<^verbatim>\<open>response.json()\<close> can produce it, with \<^verbatim>\<open>undefined\<close> added
  for a missing property. Strings are lists of 8-bit characters. An object is the list of
  its own properties (each key once). A number is the finite value parsed.
\<close>

datatype jsval =
    Undefined
  | JNull
  | JBool bool
  | JNum real
  | JStr string
  | JArr "jsval list"
  | JObj "(string \<times> jsval) list"

text \<open>
  \<^verbatim>\<open>v?.k\<close> for the property names the handler reads: the property of an object,
  \<^verbatim>\<open>undefined\<close> when it is missing or when \<open>v\<close> is \<^verbatim>\<open>null\<close>, \<^verbatim>\<open>undefined\<close>, a
  primitive or an array (none of which has a property of these names).
\<close>

fun getProp :: "jsval \<Rightarrow> string \<Rightarrow> jsval" where
  "getProp (JObj props) k = (case map_of props k of None \<Rightarrow> Undefined | Some v \<Rightarrow> v)"
| "getProp _ k = Undefined"

text \<open>JavaScript truthiness, and \<^verbatim>\<open>a || b\<close>.\<close>

fun truthy :: "jsval \<Rightarrow> bool" where
  "truthy Undefined = False"
| "truthy JNull = False"
| "truthy (JBool b) = b"
| "truthy (JNum n) = (n \<noteq> 0)"
| "truthy (JStr s) = (s \<noteq> [])"
| "truthy (JArr xs) = True"
| "truthy (JObj props) = True"

definition jsOr :: "jsval \<Rightarrow> jsval \<Rightarrow> jsval" where
  "jsOr a b = (if truthy a then a else b)"

text \<open>\<^verbatim>\<open>String.prototype.toLowerCase\<close> on 8-bit characters, and \<^verbatim>\<open>includes\<close>
  (\<open>includesStr s p\<close>: \<open>p\<close> occurs in \<open>s\<close>).\<close>

definition toLowerChar :: "char \<Rightarrow> char" where
  "toLowerChar c =
    (let k = (of_char c :: nat)
     in if (65 \<le> k \<and> k \<le> 90) \<or> (192 \<le> k \<and> k \<le> 222 \<and> k \<noteq> 215)
        then char_of (k + 32) else c)"

definition toLowerCase :: "string \<Rightarrow> string" where
  "toLowerCase s = map toLowerChar s"

fun startsWith :: "string \<Rightarrow> string \<Rightarrow> bool" where
  "startsWith s [] = True"
| "startsWith [] (p # ps) = False"
| "startsWith (c # cs) (p # ps) = (c = p \<and> startsWith cs ps)"

fun includesStr :: "string \<Rightarrow> string \<Rightarrow> bool" where
  "includesStr [] p = (p = [])"
| "includesStr (c # cs) p = (startsWith (c # cs) p \<or> includesStr cs p)"

text \<open>
  \<^verbatim>\<open>typeof v === 'string' && v.toLowerCase().includes('samsung')\<close>.
\<close>

fun stringIncludesSamsung :: "jsval \<Rightarrow> bool" where
  "stringIncludesSamsung (JStr s) = includesStr (toLowerCase s) ''samsung''"
| "stringIncludesSamsung _ = False"

text \<open>\<^verbatim>\<open>TvDevice\<close>: the fields keep whatever value the JSON body carried.\<close>

record TvDevice =
  dev_id :: jsval
  dev_ip :: string
  dev_name :: jsval
  dev_brand :: TvBrand
  dev_model :: jsval
  dev_os :: jsval
  dev_resolution :: jsval
  dev_mac :: jsval
  dev_port :: "nat option"
  dev_metadata :: "(string \<times> jsval) list"

text \<open>
  What \<^verbatim>\<open>fetch(INFO_URL(ip), {signal})\<close> and \<^verbatim>\<open>response.json()\<close> can do: the fetch
  rejects (network error, or the abort fired by the 2.5 s timer), or it resolves with a
  status, whose body is JSON or fails to parse. \<^verbatim>\<open>response.ok\<close> is a status in
  200..299.
\<close>

datatype http_body = InvalidJson | Json jsval

datatype fetch_result = FetchRejected string | Response nat http_body

definition response_ok :: "nat \<Rightarrow> bool" where
  "response_ok status = (200 \<le> status \<and> status \<le> 299)"

text \<open>The three tests of \<^verbatim>\<open>isSamsung\<close> in \<^verbatim>\<open>SamsungTizenHandler.identify\<close>.\<close>

definition isSamsung :: "jsval \<Rightarrow> bool" where
  "isSamsung data =
    (let device = getProp data ''device''
     in getProp device ''type'' = JStr ''Samsung SmartTV''
        \<or> stringIncludesSamsung (getProp device ''name'')
        \<or> stringIncludesSamsung (getProp data ''type''))"

text \<open>
  \<^verbatim>\<open>SamsungTizenHandler.identify\<close>. The whole body is inside \<^verbatim>\<open>try { } catch { return
  null; }\<close>, so a rejected fetch and a body that is not JSON both give \<open>None\<close>.
\<close>

definition identify :: "string \<Rightarrow> fetch_result \<Rightarrow> TvDevice option" where
  "identify ip_addr fetched =
    (case fetched of
       FetchRejected e \<Rightarrow> None
     | Response status body \<Rightarrow>
         if \<not> response_ok status then None
         else (case body of
                 InvalidJson \<Rightarrow> None
               | Json data \<Rightarrow>
                   (let device = getProp data ''device''
                    in if \<not> isSamsung data then None
                       else Some \<lparr>
                         dev_id = jsOr (jsOr (getProp device ''id'') (getProp device ''duid''))
                                    (JStr (''samsung-'' @ ip_addr)),
                         dev_ip = ip_addr,
                         dev_name = jsOr (getProp device ''name'') (JStr ''Samsung TV''),
                         dev_brand = samsung_tizen,
                         dev_model = jsOr (getProp device ''modelName'') (getProp device ''model''),
                         dev_os = jsOr (getProp device ''OS'') (JStr ''Tizen''),
                         dev_resolution = getProp device ''resolution'',
                         dev_mac = getProp device ''wifiMac'',
                         dev_port = Some 8002,
                         dev_metadata =
                           [(''firmwareVersion'', getProp device ''firmwareVersion''),
                            (''tokenAuthSupport'', getProp device ''TokenAuthSupport''),
                            (''networkType'', getProp device ''networkType''),
                            (''frameTVSupport'', getProp device ''FrameTVSupport''),
                            (''gamePadSupport'', getProp device ''GamePadSupport''),
                            (''apiVersion'', getProp data ''version'')] \<rparr>)))"

section \<open>Handler registry\<close>

text \<open>\<^verbatim>\<open>ConnectionState\<close> and \<^verbatim>\<open>ConnectionEvent\<close> (handlers/types.ts).\<close>

datatype ConnectionState = St_disconnected | St_connecting | St_connected | St_error

record ConnectionEvent =
  ev_state :: ConnectionState
  ev_device :: "TvDevice option"
  ev_error :: "string option"

text \<open>
  A \<^verbatim>\<open>TvHandler\<close> as the registry sees it: the identity of the handler object
  (\<open>h_ref\<close>; JavaScript's \<^verbatim>\<open>===\<close> on objects compares identities), its brand, and what
  each method the registry calls does. A promise-returning method settles with an \<open>outcome\<close>; \<open>connect\<close> and
  \<open>disconnect\<close> also emit connection events to the handler's listeners before they
  settle. The optional methods \<^verbatim>\<open>sendRawKey?\<close> and \<^verbatim>\<open>launchApp?\<close> are \<open>None\<close> when
  the handler object has no such function.
\<close>

record TvHandler =
  h_ref :: nat
  h_brand :: TvBrand
  h_displayName :: string
  h_connect :: "TvDevice \<Rightarrow> ConnectionEvent list \<times> unit outcome"
  h_disconnect :: "ConnectionEvent list \<times> unit outcome"
  h_isConnected :: bool
  h_sendKey :: "StandardRemoteKey \<Rightarrow> bool outcome"
  h_sendRawKey :: "(string \<Rightarrow> bool outcome) option"
  h_launchApp :: "(string \<Rightarrow> bool outcome) option"

text \<open>
  Everything the registry does to the outside: each handler method it calls and each
  registry-level listener it notifies, in order.
\<close>

datatype registry_io =
    CallConnect TvBrand TvDevice
  | CallDisconnect TvBrand
  | CallSendKey TvBrand StandardRemoteKey
  | CallSendRawKey TvBrand string
  | CallLaunchApp TvBrand string
  | CallSubscribe TvBrand
  | CallUnsubscribe TvBrand
  | Notified nat ConnectionEvent

text \<open>
  The fields of \<^verbatim>\<open>class HandlerRegistry\<close>. \<open>activeUnsubscribe\<close> is the closure that
  removes the registry's forwarding listener from a handler; it is modelled by that
  handler (\<open>None\<close> for \<^verbatim>\<open>null\<close>). Registry-level listeners are numbered. \<open>io_log\<close> is the
  trace of the registry's calls.
\<close>

record HandlerRegistry =
  handlers :: "TvHandler list"
  activeHandler :: "TvHandler option"
  activeDevice :: "TvDevice option"
  activeUnsubscribe :: "TvHandler option"
  connectionListeners :: "nat list"
  io_log :: "registry_io list"

text \<open>\<open>isHandler r handler\<close>: the reference \<open>r\<close> is not \<^verbatim>\<open>null\<close> and is the object \<open>handler\<close>.\<close>

definition isHandler :: "TvHandler option \<Rightarrow> TvHandler \<Rightarrow> bool" where
  "isHandler r handler = (case r of None \<Rightarrow> False | Some h \<Rightarrow> h_ref h = h_ref handler)"

definition logIo :: "registry_io \<Rightarrow> HandlerRegistry \<Rightarrow> HandlerRegistry" where
  "logIo c reg = reg\<lparr>io_log := io_log reg @ [c]\<rparr>"

text \<open>\<^verbatim>\<open>register(handler)\<close>: a second handler of a registered brand is skipped.\<close>

definition register :: "TvHandler \<Rightarrow> HandlerRegistry \<Rightarrow> HandlerRegistry" where
  "register handler reg =
    (if list_ex (\<lambda>h. h_brand h = h_brand handler) (handlers reg) then reg
     else reg\<lparr>handlers := handlers reg @ [handler]\<rparr>)"

text \<open>\<^verbatim>\<open>getHandler(device)\<close>: \<^verbatim>\<open>this.handlers.find((h) => h.brand === device.brand)\<close>.\<close>

definition getHandler :: "HandlerRegistry \<Rightarrow> TvDevice \<Rightarrow> TvHandler option" where
  "getHandler reg device = find (\<lambda>h. h_brand h = dev_brand device) (handlers reg)"

text \<open>The literal of a brand, as the template \<^verbatim>\<open>${device.brand}\<close> prints it.\<close>

fun brandString :: "TvBrand \<Rightarrow> string" where
  "brandString samsung_tizen = ''samsung_tizen''"
| "brandString lg_webos = ''lg_webos''"
| "brandString roku = ''roku''"
| "brandString android_tv = ''android_tv''"
| "brandString vizio = ''vizio''"
| "brandString fire_tv = ''fire_tv''"
| "brandString unknown = ''unknown''"

text \<open>
  \<^verbatim>\<open>this.activeHandler = null; this.activeDevice = null; this.activeUnsubscribe?.();
  this.activeUnsubscribe = null;\<close> (the clean-up shared by \<open>connect\<close>, \<open>disconnect\<close> and
  the forwarding listener).
\<close>

definition clearActive :: "HandlerRegistry \<Rightarrow> HandlerRegistry" where
  "clearActive reg =
    (let reg1 = reg\<lparr>activeHandler := None, activeDevice := None\<rparr>;
         reg2 = (case activeUnsubscribe reg1 of
                   None \<Rightarrow> reg1
                 | Some h \<Rightarrow> logIo (CallUnsubscribe (h_brand h)) reg1)
     in reg2\<lparr>activeUnsubscribe := None\<rparr>)"

text \<open>
  The listener that \<open>connect\<close> registers on \<open>handler\<close>: it forwards an event only while
  \<open>handler\<close> is the active handler (each registry listener is called inside its own
  \<^verbatim>\<open>try { } catch {}\<close>), and a \<^verbatim>\<open>'disconnected'\<close> event clears the active state.
\<close>

definition forwardEvent :: "TvHandler \<Rightarrow> HandlerRegistry \<Rightarrow> ConnectionEvent \<Rightarrow> HandlerRegistry" where
  "forwardEvent handler reg event =
    (if \<not> isHandler (activeHandler reg) handler then reg
     else
       (let reg1 = reg\<lparr>io_log := io_log reg @ map (\<lambda>l. Notified l event) (connectionListeners reg)\<rparr>
        in if ev_state event = St_disconnected then clearActive reg1 else reg1))"

text \<open>
  A handler emits events to the listeners registered on it; the registry's forwarding
  listener is registered on \<open>handler\<close> exactly while \<open>activeUnsubscribe\<close> is its closure.
\<close>

definition emitEvents :: "TvHandler \<Rightarrow> ConnectionEvent list \<Rightarrow> HandlerRegistry \<Rightarrow> HandlerRegistry" where
  "emitEvents handler events reg =
    foldl (\<lambda>r e. if isHandler (activeUnsubscribe r) handler then forwardEvent handler r e else r)
      reg events"

text \<open>\<^verbatim>\<open>HandlerRegistry.connect(device)\<close>: the promise's outcome and the registry after it.\<close>

definition registry_connect :: "HandlerRegistry \<Rightarrow> TvDevice \<Rightarrow> unit outcome \<times> HandlerRegistry" where
  "registry_connect reg device =
    (case getHandler reg device of
       None \<Rightarrow> (Throws (''No handler available for brand: '' @ brandString (dev_brand device)), reg)
     | Some handler \<Rightarrow>
        (let reg1 =
               (case activeHandler reg of
                  None \<Rightarrow> reg
                | Some old \<Rightarrow>
                    clearActive
                      (emitEvents old (fst (h_disconnect old))
                         (logIo (CallDisconnect (h_brand old)) reg)));
             reg2 = reg1\<lparr>activeHandler := Some handler, activeDevice := Some device\<rparr>;
             reg3 = (logIo (CallSubscribe (h_brand handler)) reg2)\<lparr>activeUnsubscribe := Some handler\<rparr>;
             reg4 = emitEvents handler (fst (h_connect handler device))
                      (logIo (CallConnect (h_brand handler) device) reg3)
         in case snd (h_connect handler device) of
              Returns u \<Rightarrow> (Returns (), reg4)
            | Throws err \<Rightarrow> (Throws err, clearActive reg4)))"

text \<open>\<^verbatim>\<open>HandlerRegistry.disconnect()\<close>: \<^verbatim>\<open>try { await disconnect() } finally { clear }\<close>.\<close>

definition registry_disconnect :: "HandlerRegistry \<Rightarrow> unit outcome \<times> HandlerRegistry" where
  "registry_disconnect reg =
    (case activeHandler reg of
       None \<Rightarrow> (Returns (), reg)
     | Some h \<Rightarrow>
         (snd (h_disconnect h),
          clearActive (emitEvents h (fst (h_disconnect h)) (logIo (CallDisconnect (h_brand h)) reg))))"

text \<open>\<^verbatim>\<open>sendKey\<close>, \<^verbatim>\<open>sendRawKey\<close> and \<^verbatim>\<open>launchApp\<close> of the registry.\<close>

definition registry_sendKey ::
  "HandlerRegistry \<Rightarrow> StandardRemoteKey \<Rightarrow> bool outcome \<times> HandlerRegistry" where
  "registry_sendKey reg key =
    (case activeHandler reg of
       None \<Rightarrow> (Returns False, reg)
     | Some h \<Rightarrow> (h_sendKey h key, logIo (CallSendKey (h_brand h) key) reg))"

definition registry_sendRawKey ::
  "HandlerRegistry \<Rightarrow> string \<Rightarrow> bool outcome \<times> HandlerRegistry" where
  "registry_sendRawKey reg key =
    (case activeHandler reg of
       None \<Rightarrow> (Returns False, reg)
     | Some h \<Rightarrow>
         (case h_sendRawKey h of
            None \<Rightarrow> (Returns False, reg)
          | Some f \<Rightarrow> (f key, logIo (CallSendRawKey (h_brand h) key) reg)))"

definition registry_launchApp ::
  "HandlerRegistry \<Rightarrow> string \<Rightarrow> bool outcome \<times> HandlerRegistry" where
  "registry_launchApp reg appId =
    (case activeHandler reg of
       None \<Rightarrow> (Returns False, reg)
     | Some h \<Rightarrow>
         (case h_launchApp h of
            None \<Rightarrow> (Returns False, reg)
          | Some f \<Rightarrow> (f appId, logIo (CallLaunchApp (h_brand h) appId) reg)))"

text \<open>
  \<^verbatim>\<open>SamsungTizenHandler\<close> as a \<open>TvHandler\<close>, for the parts modelled above: it has no
  \<^verbatim>\<open>sendRawKey\<close> and no \<^verbatim>\<open>launchApp\<close> method. Its connect and disconnect are given by
  the native module's behaviour, passed in.
\<close>

definition samsungTizenHandler ::
  "nat \<Rightarrow> native_env \<Rightarrow> (TvDevice \<Rightarrow> ConnectionEvent list \<times> unit outcome)
     \<Rightarrow> ConnectionEvent list \<times> unit outcome \<Rightarrow> bool \<Rightarrow> TvHandler" where
  "samsungTizenHandler ref env conn disc isConn =
    \<lparr> h_ref = ref, h_brand = samsung_tizen, h_displayName = ''Samsung Tizen'',
      h_connect = conn, h_disconnect = disc, h_isConnected = isConn,
      h_sendKey = (\<lambda>key. Returns (samsung_sendKey env key)),
      h_sendRawKey = None, h_launchApp = None \<rparr>"

section \<open>Example values\<close>

text \<open>
  Concrete handlers, devices and registries on which the theorems below are instantiated:
  a Samsung handler on Android whose native calls succeed, a device of a given brand,
  a registry holding only that handler, idle or with a Samsung session active.
\<close>

definition exampleHandler :: TvHandler where
  "exampleHandler =
     samsungTizenHandler 1 \<lparr>androidWithModule = True, nativeSendKey = (\<lambda>k. Returns True)\<rparr>
       (\<lambda>d. ([\<lparr>ev_state = St_connecting, ev_device = Some d, ev_error = None\<rparr>], Returns ()))
       ([\<lparr>ev_state = St_disconnected, ev_device = None, ev_error = None\<rparr>], Returns ())
       False"

definition exampleDevice :: "TvBrand \<Rightarrow> TvDevice" where
  "exampleDevice b =
     \<lparr>dev_id = JStr ''tv-1'', dev_ip = ''10.0.0.5'', dev_name = JStr ''Living Room TV'',
      dev_brand = b, dev_model = Undefined, dev_os = Undefined, dev_resolution = Undefined,
      dev_mac = Undefined, dev_port = None, dev_metadata = []\<rparr>"

definition idleRegistry :: HandlerRegistry where
  "idleRegistry =
     \<lparr>handlers = [exampleHandler], activeHandler = None, activeDevice = None,
      activeUnsubscribe = None, connectionListeners = [0], io_log = []\<rparr>"

definition activeRegistry :: HandlerRegistry where
  "activeRegistry =
     \<lparr>handlers = [exampleHandler], activeHandler = Some exampleHandler,
      activeDevice = Some (exampleDevice samsung_tizen),
      activeUnsubscribe = Some exampleHandler, connectionListeners = [0], io_log = []\<rparr>"

section \<open>WebSocket frame codec\<close>

text \<open>
  Kotlin's \<^verbatim>\<open>Byte\<close> is an 8-bit word; \<^verbatim>\<open>Int\<close> and \<^verbatim>\<open>Long\<close> values are integers, with
  the wrap-around to 32 and 64 bits written out where an operation can leave the range.
  \<^verbatim>\<open>Byte.toInt()\<close> sign-extends, \<^verbatim>\<open>Int.toByte()\<close> and \<^verbatim>\<open>Int.toShort()\<close> truncate,
  \<^verbatim>\<open>Long.toInt()\<close> keeps the low 32 bits.
\<close>

type_synonym byte = "8 word"

definition toInt :: "byte \<Rightarrow> int" where
  "toInt b = sint b"

definition toByte :: "int \<Rightarrow> byte" where
  "toByte i = word_of_int i"

definition toShort :: "int \<Rightarrow> int" where
  "toShort i = signed_take_bit 15 i"

definition wrapInt :: "int \<Rightarrow> int" where
  "wrapInt i = signed_take_bit 31 i"

definition wrapLong :: "int \<Rightarrow> int" where
  "wrapLong i = signed_take_bit 63 i"

definition longToInt :: "int \<Rightarrow> int" where
  "longToInt l = signed_take_bit 31 l"

text \<open>
  A Kotlin \<^verbatim>\<open>String\<close> (one without unpaired surrogates) is represented by the bytes of
  its UTF-8 encoding, held as a list of 8-bit characters, so
  \<^verbatim>\<open>text.toByteArray(Charsets.UTF_8)\<close> changes the element type only.
\<close>

definition stringToBytes :: "string \<Rightarrow> byte list" where
  "stringToBytes s = map (\<lambda>c. of_nat (of_char c)) s"

text \<open>
  The byte sequences that are well-formed UTF-8: one byte \<open>00..7F\<close>; a lead byte
  \<open>C2..DF\<close> and one continuation byte \<open>80..BF\<close>; a lead byte \<open>E0..EF\<close> and two
  continuation bytes, the first at least \<open>A0\<close> after \<open>E0\<close> and at most \<open>9F\<close> after \<open>ED\<close>;
  a lead byte \<open>F0..F4\<close> and three continuation bytes, the first at least \<open>90\<close> after \<open>F0\<close>
  and at most \<open>8F\<close> after \<open>F4\<close>.
\<close>

definition inRange :: "byte \<Rightarrow> byte \<Rightarrow> byte \<Rightarrow> bool" where
  "inRange lo hi b = (lo \<le> b \<and> b \<le> hi)"

fun wellFormedUtf8 :: "byte list \<Rightarrow> bool" where
  "wellFormedUtf8 [] = True"
| "wellFormedUtf8 (b # bs) =
    (if b \<le> 0x7F then wellFormedUtf8 bs
     else if inRange 0xC2 0xDF b then
       (case bs of
          c1 # r \<Rightarrow> inRange 0x80 0xBF c1 \<and> wellFormedUtf8 r
        | _ \<Rightarrow> False)
     else if inRange 0xE0 0xEF b then
       (case bs of
          c1 # c2 # r \<Rightarrow>
            inRange (if b = 0xE0 then 0xA0 else 0x80) (if b = 0xED then 0x9F else 0xBF) c1
            \<and> inRange 0x80 0xBF c2 \<and> wellFormedUtf8 r
        | _ \<Rightarrow> False)
     else if inRange 0xF0 0xF4 b then
       (case bs of
          c1 # c2 # c3 # r \<Rightarrow>
            inRange (if b = 0xF0 then 0x90 else 0x80) (if b = 0xF4 then 0x8F else 0xBF) c1
            \<and> inRange 0x80 0xBF c2 \<and> inRange 0x80 0xBF c3 \<and> wellFormedUtf8 r
        | _ \<Rightarrow> False)
     else False)"

text \<open>
  What the decoder needs from the runtime. \<open>heapLimit\<close> is the largest size at which the
  allocation of the payload array, \<^verbatim>\<open>ByteArray(n)\<close>, succeeds when it is called: a larger
  \<open>n\<close> ends in an \<^verbatim>\<open>OutOfMemoryError\<close> (the four bytes of a mask key, the two of a pong
  and the string made from an allocated payload are taken to fit). \<open>decodeMalformed\<close> is
  what \<^verbatim>\<open>String(payload, Charsets.UTF_8)\<close> returns for bytes that are not well-formed
  UTF-8, where the runtime's decoder substitutes replacement characters; that decoder is
  not part of this repository.
\<close>

record jvm =
  heapLimit :: nat
  decodeMalformed :: "byte list \<Rightarrow> string"

text \<open>\<^verbatim>\<open>String(payload, Charsets.UTF_8)\<close>.\<close>

definition decodeUtf8 :: "jvm \<Rightarrow> byte list \<Rightarrow> string" where
  "decodeUtf8 vm bs =
    (if wellFormedUtf8 bs then map (\<lambda>b. char_of (unat b)) bs else decodeMalformed vm bs)"

text \<open>
  The socket's input stream is the list of bytes still to come, followed by what a read
  meets once they are consumed: the end of the stream, an exception (the peer reset the
  connection, or it stayed silent for longer than the socket's read time-out), or a
  wait without end (a silent peer and no read time-out). The output stream is the list
  of bytes written so far.
\<close>

datatype ending = EndOfStream | ReadThrows | ReadBlocks

type_synonym stream = "byte list \<times> ending"

text \<open>How a read ends: with a value, with an exception, or never.\<close>

datatype 'a rd = Got 'a | Thrown | Blocked

definition rdBind :: "'a rd \<Rightarrow> ('a \<Rightarrow> 'b rd) \<Rightarrow> 'b rd" where
  "rdBind r f = (case r of Got x \<Rightarrow> f x | Thrown \<Rightarrow> Thrown | Blocked \<Rightarrow> Blocked)"

text \<open>What a read meets when no byte is left.\<close>

definition atEnd :: "ending \<Rightarrow> 'a \<Rightarrow> 'a rd" where
  "atEnd e eof = (case e of EndOfStream \<Rightarrow> Got eof | ReadThrows \<Rightarrow> Thrown | ReadBlocks \<Rightarrow> Blocked)"

text \<open>\<^verbatim>\<open>input.read()\<close> returns the next byte as 0..255, or -1 at the end of the stream.\<close>

fun readByte :: "stream \<Rightarrow> (int \<times> stream) rd" where
  "readByte ([], e) = atEnd e (- 1, ([], e))"
| "readByte (b # bs, e) = Got (uint b, (bs, e))"

text \<open>
  \<^verbatim>\<open>input.read(buf, off, len)\<close>: a range outside the array throws
  (\<^verbatim>\<open>IndexOutOfBoundsException\<close>); a zero \<open>len\<close> reads nothing and returns 0; at the end
  of the stream the result is -1; otherwise the bytes at hand, at most \<open>len\<close>, are stored
  from \<open>off\<close>. The result is the count, the array and the stream after the call.
\<close>

definition readBytes ::
  "stream \<Rightarrow> byte list \<Rightarrow> int \<Rightarrow> int \<Rightarrow> (int \<times> byte list \<times> stream) rd" where
  "readBytes input buf off len =
    (if off < 0 \<or> len < 0 \<or> len > int (length buf) - off then Thrown
     else if len = 0 then Got (0, buf, input)
     else if fst input = [] then atEnd (snd input) (- 1, buf, input)
     else (let m = min (nat len) (length (fst input))
           in Got (int m,
                   take (nat off) buf @ take m (fst input) @ drop (nat off + m) buf,
                   (drop m (fst input), snd input))))"

text \<open>
  The extended payload length: two bytes as \<^verbatim>\<open>((b1 shl 8) or b2).toLong()\<close> after the
  marker 126, eight bytes accumulated as \<^verbatim>\<open>len = (len shl 8) or input.read().toLong()\<close>
  after the marker 127, the 7-bit value itself otherwise.
\<close>

fun readLong :: "nat \<Rightarrow> int \<Rightarrow> stream \<Rightarrow> (int \<times> stream) rd" where
  "readLong 0 len input = Got (len, input)"
| "readLong (Suc k) len input =
    (case readByte input of
       Got (r, input') \<Rightarrow> readLong k (wrapLong (push_bit 8 len) OR r) input'
     | Thrown \<Rightarrow> Thrown
     | Blocked \<Rightarrow> Blocked)"

definition readLength :: "int \<Rightarrow> stream \<Rightarrow> (int \<times> stream) rd" where
  "readLength len7 input =
    (if len7 = 126 then
       rdBind (readByte input) (\<lambda>(b1, input1).
         rdBind (readByte input1) (\<lambda>(b2, input2). Got (push_bit 8 b1 OR b2, input2)))
     else if len7 = 127 then readLong 8 0 input
     else Got (len7, input))"

text \<open>
  \<^verbatim>\<open>ByteArray(4).also { input.read(it) }\<close>: the bytes at hand, at most four, over
  zeros.
\<close>

definition readMaskKey :: "stream \<Rightarrow> (byte list \<times> stream) rd" where
  "readMaskKey input =
    (if fst input = [] then atEnd (snd input) (replicate 4 0, input)
     else Got (take 4 (fst input) @ replicate (4 - length (fst input)) 0,
               (drop 4 (fst input), snd input)))"

text \<open>
  The header of a frame, up to and including the mask key. \<open>Got None\<close> is the end of the
  stream at one of the first two bytes, where the decoder returns \<^verbatim>\<open>null\<close>.
\<close>

record frame_header =
  fh_opcode :: int
  fh_masked :: bool
  fh_payloadLength :: int
  fh_maskKey :: "byte list option"
  fh_rest :: stream

definition readHeader :: "stream \<Rightarrow> frame_header option rd" where
  "readHeader input =
    rdBind (readByte input) (\<lambda>(byte1, input1).
      if byte1 = - 1 then Got None
      else rdBind (readByte input1) (\<lambda>(byte2, input2).
        if byte2 = - 1 then Got None
        else rdBind (readLength (byte2 AND 0x7F) input2) (\<lambda>(payloadLength, input3).
          if byte2 AND 0x80 \<noteq> 0
          then rdBind (readMaskKey input3) (\<lambda>(maskKey, input4).
                 Got (Some \<lparr>fh_opcode = byte1 AND 0x0F, fh_masked = True,
                            fh_payloadLength = payloadLength, fh_maskKey = Some maskKey,
                            fh_rest = input4\<rparr>))
          else Got (Some \<lparr>fh_opcode = byte1 AND 0x0F, fh_masked = False,
                          fh_payloadLength = payloadLength, fh_maskKey = None,
                          fh_rest = input3\<rparr>))))"

text \<open>
  The loop \<^verbatim>\<open>while (bytesRead < payloadLength) { n = input.read(payload, bytesRead,
  (payloadLength - bytesRead).toInt()); if (n == -1) break; bytesRead += n }\<close>. The
  outer \<open>None\<close> is a loop that never ends or a read that never returns; the inner \<open>None\<close>
  is an exception; otherwise the result is the array and the stream after the loop.
\<close>

partial_function (option) readPayload ::
  "stream \<Rightarrow> byte list \<Rightarrow> int \<Rightarrow> int \<Rightarrow> (byte list \<times> stream) option option" where
  "readPayload input payload bytesRead payloadLength =
    (if bytesRead < payloadLength then
       (case readBytes input payload bytesRead (longToInt (wrapLong (payloadLength - bytesRead))) of
          Thrown \<Rightarrow> Some None
        | Blocked \<Rightarrow> None
        | Got (n, payload', input') \<Rightarrow>
            if n = - 1 then Some (Some (payload', input'))
            else readPayload input' payload' (wrapInt (bytesRead + n)) payloadLength)
     else Some (Some (payload, input)))"

declare readPayload.simps [code]

text \<open>
  \<^verbatim>\<open>payload[i] = (payload[i].toInt() xor maskKey[i % 4].toInt()).toByte()\<close> for every
  index; the encoder's masking loop is the same expression.
\<close>

definition xorMask :: "byte list \<Rightarrow> byte list \<Rightarrow> byte list" where
  "xorMask maskKey payload =
     map (\<lambda>(i, b). toByte (toInt b XOR toInt (maskKey ! (i mod 4)))) (enumerate 0 payload)"

text \<open>
  How a call of \<^verbatim>\<open>readWebSocketFrame(socket)\<close> ends: it returns a string (\<open>Text\<close>, with
  the input stream after the frame), it returns \<^verbatim>\<open>null\<close>, or the allocation of the
  payload array fails. \<^verbatim>\<open>OutOfMemoryError\<close> is an \<^verbatim>\<open>Error\<close>, not an \<^verbatim>\<open>Exception\<close>: the
  function's \<^verbatim>\<open>catch (e: Exception)\<close> does not catch it and it leaves the function;
  \<open>OutOfMemory n\<close> records the size \<open>n\<close> that was asked for.
\<close>

datatype frame_result = Text string stream | Null | OutOfMemory nat

text \<open>
  \<^verbatim>\<open>readWebSocketFrame(socket)\<close> on the socket's two streams. The result is how the call
  ends and the output stream afterwards; the outer \<open>None\<close> is a call that never returns.
  The size of the payload array is \<^verbatim>\<open>payloadLength.toInt()\<close>, compared with nothing
  before \<^verbatim>\<open>ByteArray\<close> is called: a negative size throws
  (\<^verbatim>\<open>NegativeArraySizeException\<close>), and the enclosing \<^verbatim>\<open>try\<close> turns every exception into
  \<^verbatim>\<open>null\<close>. A ping writes the two-byte pong and reads on; a pong reads on.
\<close>

partial_function (option) readWebSocketFrame ::
  "jvm \<Rightarrow> stream \<Rightarrow> byte list \<Rightarrow> (frame_result \<times> byte list) option" where
  "readWebSocketFrame vm input output =
    (case readHeader input of
       Blocked \<Rightarrow> None
     | Thrown \<Rightarrow> Some (Null, output)
     | Got None \<Rightarrow> Some (Null, output)
     | Got (Some h) \<Rightarrow>
        if longToInt (fh_payloadLength h) < 0 then Some (Null, output)
        else if int (heapLimit vm) < longToInt (fh_payloadLength h)
        then Some (OutOfMemory (nat (longToInt (fh_payloadLength h))), output)
        else
          Option.bind
            (readPayload (fh_rest h) (replicate (nat (longToInt (fh_payloadLength h))) 0) 0
               (fh_payloadLength h))
            (\<lambda>read.
               case read of
                 None \<Rightarrow> Some (Null, output)
               | Some (raw, input') \<Rightarrow>
                  (let payload = (case fh_maskKey h of None \<Rightarrow> raw | Some maskKey \<Rightarrow> xorMask maskKey raw)
                   in if fh_opcode h = 0x1 then Some (Text (decodeUtf8 vm payload) input', output)
                      else if fh_opcode h = 0x2 then Some (Text (decodeUtf8 vm payload) input', output)
                      else if fh_opcode h = 0x8 then Some (Null, output)
                      else if fh_opcode h = 0x9 then readWebSocketFrame vm input' (output @ [0x8A, 0x00])
                      else if fh_opcode h = 0xA then readWebSocketFrame vm input' output
                      else Some (Text (decodeUtf8 vm payload) input', output))))"

declare readWebSocketFrame.simps [code]

text \<open>
  \<^verbatim>\<open>sendWebSocketFrame(output, text)\<close>, with the four random bytes of the mask key as
  an argument. \<open>None\<close> is the \<^verbatim>\<open>IllegalArgumentException\<close> of \<^verbatim>\<open>ByteBuffer.allocate\<close>
  for a capacity that wrapped to a negative \<^verbatim>\<open>Int\<close>; otherwise the frame is appended to
  the output. \<^verbatim>\<open>putShort\<close> writes the high byte first.
\<close>

definition putShort :: "int \<Rightarrow> byte list" where
  "putShort s = [toByte (drop_bit 8 s), toByte s]"

definition encodeFrame :: "byte list \<Rightarrow> byte list \<Rightarrow> byte list" where
  "encodeFrame maskKey payload =
    [toByte 0x81]
    @ (if int (length payload) \<le> 125 then [toByte (0x80 OR int (length payload))]
       else [toByte 0xFE] @ putShort (toShort (int (length payload))))
    @ maskKey
    @ xorMask maskKey payload"

definition sendWebSocketFrame :: "byte list \<Rightarrow> byte list \<Rightarrow> string \<Rightarrow> byte list option" where
  "sendWebSocketFrame output maskKey text =
    (let payload = stringToBytes text;
         capacity = wrapInt (2 + (if int (length payload) > 125 then 2 else 0) + 4
                               + int (length payload))
     in if capacity < 0 then None
        else Some (output @ encodeFrame maskKey payload))"

section \<open>Token store and connect attempt of the native client\<close>

text \<open>
  \<^verbatim>\<open>TokenRepository\<close>: the shared preferences are a map from keys to strings; a token is
  stored under \<^verbatim>\<open>"tv_token_" + ip\<close>.
\<close>

type_synonym preferences = "string \<rightharpoonup> string"

definition KEY_PREFIX :: string where
  "KEY_PREFIX = ''tv_token_''"

definition KEY_LAST_IP :: string where
  "KEY_LAST_IP = ''last_connected_ip''"

definition getToken :: "preferences \<Rightarrow> string \<Rightarrow> string option" where
  "getToken p ip = p (KEY_PREFIX @ ip)"

definition saveToken :: "string \<Rightarrow> string \<Rightarrow> preferences \<Rightarrow> preferences" where
  "saveToken ip token p = p(KEY_PREFIX @ ip \<mapsto> token)"

definition clearToken :: "string \<Rightarrow> preferences \<Rightarrow> preferences" where
  "clearToken ip p = p(KEY_PREFIX @ ip := None)"

definition setLastConnectedIp :: "string \<Rightarrow> preferences \<Rightarrow> preferences" where
  "setLastConnectedIp ip p = p(KEY_LAST_IP \<mapsto> ip)"

text \<open>
  What the client does that others can see: events passed to \<^verbatim>\<open>onEvent\<close> (name and
  string argument), invocations of a caller's callback (callbacks are numbered),
  \<^verbatim>\<open>mainHandler.removeCallbacks\<close> on a runnable (runnables are numbered), the upgrade
  request sent (port and path), and the start of the background reader. A block handed
  to \<^verbatim>\<open>mainHandler.post\<close> has no test of its own and the looper runs it once: its
  event and its invocation of the callback are recorded when it is posted.
\<close>

datatype effect =
    OnEvent string string
  | InvokeCallback nat bool "string option"
  | RemoveCallbacks nat
  | UpgradeRequest nat string
  | ReaderStarted string

text \<open>An open socket: its port and its two streams.\<close>

record conn =
  conn_port :: nat
  conn_input :: stream
  conn_output :: "byte list"

text \<open>
  The fields of \<^verbatim>\<open>SamsungTvClient\<close> that a connect attempt touches. \<open>rawWebSocket\<close> and
  \<^verbatim>\<open>rawOutputStream\<close> are set and cleared together and are one field here.
  \<open>looperQueue\<close> holds the delayed runnables posted to \<^verbatim>\<open>mainHandler\<close> that have neither
  run nor been removed; \<open>nextRunnable\<close> is the identity the next \<^verbatim>\<open>Runnable { }\<close> object
  gets.
\<close>

record client =
  tokenRepository :: preferences
  isConnecting :: bool
  pendingConnectionCallback :: "nat option"
  connectionTimeoutRunnable :: "nat option"
  nextRunnable :: nat
  looperQueue :: "nat list"
  rawWebSocket :: "conn option"
  effects :: "effect list"

definition emit :: "effect list \<Rightarrow> client \<Rightarrow> client" where
  "emit es st = st\<lparr>effects := effects st @ es\<rparr>"

text \<open>
  \<^verbatim>\<open>connectionTimeoutRunnable?.let { mainHandler.removeCallbacks(it) };
  connectionTimeoutRunnable = null\<close>.
\<close>

definition cancelTimeout :: "client \<Rightarrow> client" where
  "cancelTimeout st =
    (case connectionTimeoutRunnable st of
       None \<Rightarrow> st
     | Some r \<Rightarrow>
         (emit [RemoveCallbacks r] (st\<lparr>looperQueue := removeAll r (looperQueue st)\<rparr>))
           \<lparr>connectionTimeoutRunnable := None\<rparr>)"

text \<open>
  \<^verbatim>\<open>disconnect()\<close>: closes and forgets the raw socket (the legacy OkHttp
  \<^verbatim>\<open>webSocket\<close> field is never assigned in this class).
\<close>

definition client_disconnect :: "client \<Rightarrow> client" where
  "client_disconnect st = st\<lparr>rawWebSocket := None\<rparr>"

text \<open>
  The handshake path built by \<open>connect\<close>: the Base64 of the app name
  \<^verbatim>\<open>Universal TV Remote\<close>, and the stored token when there is a non-empty one.
\<close>

definition appNameB64 :: string where
  "appNameB64 = ''VW5pdmVyc2FsIFRWIFJlbW90ZQ==''"

definition basePath :: string where
  "basePath = ''/api/v2/channels/samsung.remote.control?name='' @ appNameB64"

definition connectPath :: "preferences \<Rightarrow> string \<Rightarrow> string" where
  "connectPath p ip =
    (case getToken p ip of
       None \<Rightarrow> basePath
     | Some storedToken \<Rightarrow>
         if storedToken = [] then basePath else basePath @ ''&token='' @ storedToken)"

text \<open>
  The first match of the regular expression \<^verbatim>\<open>\"token\"\s*:\s*\"([^\"]+)\"\<close> in a
  message, and its group 1. \<open>matchTokenAt\<close> matches at the head of the string: the
  quoted word, white space, a colon, white space, a quote, then as many characters
  other than a quote as there are (at least one), then a quote. No other split of the
  string can match, so the match at a position is this one or none. \<^verbatim>\<open>\s\<close> is space,
  tab, line feed, vertical tab, form feed and carriage return.
\<close>

definition isRegexSpace :: "char \<Rightarrow> bool" where
  "isRegexSpace c = ((of_char c :: nat) \<in> {9, 10, 11, 12, 13, 32})"

definition quotedToken :: string where
  "quotedToken = CHR 0x22 # ''token'' @ [CHR 0x22]"

definition matchTokenAt :: "string \<Rightarrow> string option" where
  "matchTokenAt s =
    (if \<not> startsWith s quotedToken then None
     else (case dropWhile isRegexSpace (drop (length quotedToken) s) of
             [] \<Rightarrow> None
           | colon # afterColon \<Rightarrow>
               if colon \<noteq> CHR '':'' then None
               else (case dropWhile isRegexSpace afterColon of
                       [] \<Rightarrow> None
                     | quote # afterQuote \<Rightarrow>
                         if quote \<noteq> CHR 0x22 then None
                         else (let token = takeWhile (\<lambda>c. c \<noteq> CHR 0x22) afterQuote
                               in if token \<noteq> [] \<and> dropWhile (\<lambda>c. c \<noteq> CHR 0x22) afterQuote \<noteq> []
                                  then Some token else None))))"

fun findToken :: "string \<Rightarrow> string option" where
  "findToken [] = None"
| "findToken (c # cs) =
    (case matchTokenAt (c # cs) of Some token \<Rightarrow> Some token | None \<Rightarrow> findToken cs)"

text \<open>
  \<^verbatim>\<open>token.isNotBlank()\<close>: the string is not empty and some character of it is not white
  space. Kotlin's white space is the control characters 9..13 and 28..31 and Unicode's
  space, line and paragraph separators: U+0020, U+00A0, U+1680, U+2000..U+200A, U+2028,
  U+2029, U+202F, U+205F and U+3000. \<open>whitespaceLength\<close> is the number of bytes of the
  white-space character at the head of a string in UTF-8, 0 when there is none.
\<close>

definition whitespaceLength :: "nat list \<Rightarrow> nat" where
  "whitespaceLength ks =
    (case ks of
       [] \<Rightarrow> 0
     | a # r \<Rightarrow>
         if (9 \<le> a \<and> a \<le> 13) \<or> (28 \<le> a \<and> a \<le> 32) then 1
         else if a = 0xC2 \<and> take 1 r = [0xA0] then 2
         else if a = 0xE1 \<and> take 2 r = [0x9A, 0x80] then 3
         else if a = 0xE2 \<and> take 1 r = [0x80]
                 \<and> (case drop 1 r of
                        c # _ \<Rightarrow> (0x80 \<le> c \<and> c \<le> 0x8A) \<or> c = 0xA8 \<or> c = 0xA9 \<or> c = 0xAF
                      | [] \<Rightarrow> False) then 3
         else if a = 0xE2 \<and> take 2 r = [0x81, 0x9F] then 3
         else if a = 0xE3 \<and> take 2 r = [0x80, 0x80] then 3
         else 0)"

fun isBlankCodes :: "nat list \<Rightarrow> bool" where
  "isBlankCodes [] = True"
| "isBlankCodes (a # r) =
    (whitespaceLength (a # r) \<noteq> 0
     \<and> isBlankCodes (drop (whitespaceLength (a # r) - 1) r))"

definition isNotBlank :: "string \<Rightarrow> bool" where
  "isNotBlank s = (\<not> isBlankCodes (map of_char s))"

text \<open>
  The three-way test on the first message, in the order of the source: the success test
  comes first.
\<close>

datatype first_message_kind = PairingSuccess | PairingDenied | Inconclusive

definition classify :: "string \<Rightarrow> first_message_kind" where
  "classify firstMsg =
    (if includesStr firstMsg ''ms.channel.connect'' \<or> includesStr firstMsg ''ms.channel.ready''
     then PairingSuccess
     else if includesStr firstMsg ''ms.channel.unauthorized'' then PairingDenied
     else Inconclusive)"

definition deniedMessage :: string where
  "deniedMessage =
     ''TV denied the connection. Please try again '' @ [CHR 0xE2, CHR 0x80, CHR 0x94]
     @ '' check the TV screen for an Allow/Deny prompt. If no prompt appears, go to TV Settings > General > External Device Manager and remove blocked devices.''"


text \<open>
  What the peer does in one attempt: the connection fails with an exception before an
  answer is read (TCP connect, TLS handshake, the write of the request or the read of
  the status line), or the peer answers with a status line (\<open>None\<close> when the stream ends
  first) followed, after the response headers, by the stream of its frames.
\<close>

datatype peer = ConnectFails "string option" | Answers "string option" stream

text \<open>
  \<open>connectRawWebSocket\<close> from its first line to the test \<^verbatim>\<open>firstMsg == null\<close>. It ends
  with an exception (\<open>Failed\<close>, with the exception's message), with the first message
  in hand, in a call of \<open>readWebSocketFrame\<close> that never returns (\<open>Hung\<close>), or with the
  \<^verbatim>\<open>OutOfMemoryError\<close> that left \<open>readWebSocketFrame\<close> (\<open>Died\<close>).
\<close>

datatype first_read = Failed "string option" | FirstMessage string | Hung | Died nat

definition handshake ::
  "jvm \<Rightarrow> client \<Rightarrow> nat \<Rightarrow> string \<Rightarrow> peer \<Rightarrow> first_read \<times> client" where
  "handshake vm st port path peer =
    (case peer of
       ConnectFails e \<Rightarrow> (Failed e, st)
     | Answers statusLine bytes \<Rightarrow>
        (let s0 = emit [UpgradeRequest port path] st
         in case statusLine of
              None \<Rightarrow> (Failed (Some ''WebSocket upgrade failed: null''), s0)
            | Some line \<Rightarrow>
                if \<not> includesStr line ''101''
                then (Failed (Some (''WebSocket upgrade failed: '' @ line)), s0)
                else
                  (let s1 = s0\<lparr>rawWebSocket :=
                             Some \<lparr>conn_port = port, conn_input = bytes, conn_output = []\<rparr>\<rparr>
                   in case readWebSocketFrame vm bytes [] of
                        None \<Rightarrow> (Hung, s1)
                      | Some (OutOfMemory n, output') \<Rightarrow> (Died n, s1)
                      | Some (Null, output') \<Rightarrow>
                          (Failed (Some ''No response from TV''), s1\<lparr>rawWebSocket := None\<rparr>)
                      | Some (Text firstMsg bytes', output') \<Rightarrow>
                          (FirstMessage firstMsg,
                           s1\<lparr>rawWebSocket :=
                                Some \<lparr>conn_port = port, conn_input = bytes',
                                      conn_output = output'\<rparr>\<rparr>))))"

text \<open>
  The success branch of \<open>connectRawWebSocket\<close> up to the guard on
  \<open>pendingConnectionCallback\<close>: the watchdog is cancelled, the token of the message is
  saved, the address is remembered, \<open>isConnecting\<close> is reset. These and those of
  \<open>rejectedPrelude\<close> are the only calls of \<^verbatim>\<open>saveToken\<close> and \<^verbatim>\<open>clearToken\<close> that can
  run: the private \<^verbatim>\<open>handleMessage\<close>, which has the same two calls under the same tests,
  is called nowhere in the class.
\<close>

definition successPrelude :: "string \<Rightarrow> string \<Rightarrow> client \<Rightarrow> client" where
  "successPrelude ip firstMsg st =
    (let s1 = cancelTimeout st;
         s2 = (case findToken firstMsg of
                 None \<Rightarrow> s1
               | Some token \<Rightarrow>
                   if isNotBlank token
                   then s1\<lparr>tokenRepository := saveToken ip token (tokenRepository s1)\<rparr>
                   else s1)
     in s2\<lparr>tokenRepository := setLastConnectedIp ip (tokenRepository s2),
            isConnecting := False\<rparr>)"

text \<open>The unauthorized branch up to its guard.\<close>

definition rejectedPrelude :: "string \<Rightarrow> client \<Rightarrow> client" where
  "rejectedPrelude ip st =
    (let s1 = st\<lparr>rawWebSocket := None\<rparr>;
         s2 = s1\<lparr>tokenRepository := clearToken ip (tokenRepository s1)\<rparr>;
         s3 = cancelTimeout s2
     in s3\<lparr>isConnecting := False\<rparr>)"

text \<open>The innermost \<^verbatim>\<open>catch (e2: Exception)\<close> of the worker thread up to its guard.\<close>

definition exhaustedPrelude :: "client \<Rightarrow> client" where
  "exhaustedPrelude st = (cancelTimeout st)\<lparr>isConnecting := False\<rparr>"

text \<open>
  Every guard has the form \<^verbatim>\<open>pendingConnectionCallback?.let { cb -> pendingConnectionCallback
  = null; ... }\<close>: the field is read once, into \<open>cb\<close>, and tested; the body then runs with
  the value that was read. The field is a plain \<^verbatim>\<open>var\<close>, read and written by the worker
  thread and by the main looper with no lock, so the read and the body are two steps,
  and the other thread can run between them; what a thread does from one such read to
  the next is one step. The four bodies follow, each given the
  value \<open>cb\<close> its guard has read: the success branch (with the start of the background
  reader after it), the unauthorized branch, the innermost catch (\<open>e\<close> is the message of
  the exception of the first, wss, attempt, which is the one reported), and the
  watchdog.
\<close>

definition successBody :: "string \<Rightarrow> nat option \<Rightarrow> client \<Rightarrow> client" where
  "successBody ip cb st =
    emit [ReaderStarted ip]
      (case cb of
         None \<Rightarrow> st
       | Some c \<Rightarrow>
           emit [OnEvent ''connected'' ip, InvokeCallback c True None]
             (st\<lparr>pendingConnectionCallback := None\<rparr>))"

definition rejectedBody :: "nat option \<Rightarrow> client \<Rightarrow> client" where
  "rejectedBody cb st =
    (case cb of
       None \<Rightarrow> st
     | Some c \<Rightarrow>
         emit [OnEvent ''error'' deniedMessage, InvokeCallback c False (Some deniedMessage)]
           (st\<lparr>pendingConnectionCallback := None\<rparr>))"

definition exhaustedBody :: "string option \<Rightarrow> nat option \<Rightarrow> client \<Rightarrow> client" where
  "exhaustedBody e cb st =
    (let msg = (case e of None \<Rightarrow> ''Connection failed'' | Some m \<Rightarrow> m)
     in case cb of
          None \<Rightarrow> st
        | Some c \<Rightarrow>
            emit [OnEvent ''error'' msg, InvokeCallback c False (Some msg)]
              (st\<lparr>pendingConnectionCallback := None\<rparr>))"

definition timeoutMessage :: string where
  "timeoutMessage = ''Connection timed out. TV did not respond.''"

definition timeoutBody :: "nat option \<Rightarrow> client \<Rightarrow> client" where
  "timeoutBody cb st =
    (case cb of
       None \<Rightarrow> st
     | Some c \<Rightarrow>
         emit [OnEvent ''error'' timeoutMessage, InvokeCallback c False (Some timeoutMessage)]
           (st\<lparr>pendingConnectionCallback := None, isConnecting := False\<rparr>))"

text \<open>
  Where the worker thread stands. It is in the first attempt (wss, port 8002) or in the
  second (ws, port 8001, which remembers the message of the first attempt's exception).
  In an attempt it is about to run \<open>connectRawWebSocket\<close>, about to read the field in
  the guard of the success or of the unauthorized branch, or about to run that guard's
  body with the value read; after the second attempt's exception it is at the guard of
  the innermost catch. It ends by returning, in a call that never returns, or with an
  uncaught \<^verbatim>\<open>OutOfMemoryError\<close>.
\<close>

datatype stage = Wss | Ws "string option"

datatype worker_pc =
    Attempting stage
  | AtSuccessGuard stage
  | InSuccessBody stage "nat option"
  | AtRejectedGuard stage
  | InRejectedBody stage "nat option"
  | AtExhaustedGuard "string option"
  | InExhaustedBody "string option" "nat option"
  | Finished stage
  | NeverReturns stage
  | Crashed stage

definition REMOTE_PORT_WSS :: nat where
  "REMOTE_PORT_WSS = 8002"

definition REMOTE_PORT_WS :: nat where
  "REMOTE_PORT_WS = 8001"

text \<open>
  An exception that leaves \<open>connectRawWebSocket\<close>: in the first attempt the outer
  \<^verbatim>\<open>catch\<close> starts the second attempt, in the second the innermost \<^verbatim>\<open>catch\<close> runs.
\<close>

definition thrown :: "stage \<Rightarrow> string option \<Rightarrow> client \<Rightarrow> worker_pc \<times> client" where
  "thrown stg e st =
    (case stg of
       Wss \<Rightarrow> (Attempting (Ws e), st)
     | Ws e1 \<Rightarrow> (AtExhaustedGuard e1, exhaustedPrelude st))"

text \<open>
  One step of the worker thread started by \<open>connect\<close>, for the address \<open>ip\<close> and the path
  \<open>path\<close> that \<open>connect\<close> built, against what the peer does on each port.
\<close>

definition workerStep ::
  "jvm \<Rightarrow> string \<Rightarrow> string \<Rightarrow> peer \<Rightarrow> peer \<Rightarrow> worker_pc \<Rightarrow> client \<Rightarrow> worker_pc \<times> client" where
  "workerStep vm ip path wssPeer wsPeer pc st =
    (case pc of
       Attempting stg \<Rightarrow>
         (case (case stg of
                  Wss \<Rightarrow> handshake vm st REMOTE_PORT_WSS path wssPeer
                | Ws e \<Rightarrow> handshake vm st REMOTE_PORT_WS path wsPeer) of
            (Failed e, s) \<Rightarrow> thrown stg e s
          | (Hung, s) \<Rightarrow> (NeverReturns stg, s)
          | (Died n, s) \<Rightarrow> (Crashed stg, s)
          | (FirstMessage firstMsg, s) \<Rightarrow>
              (case classify firstMsg of
                 PairingSuccess \<Rightarrow> (AtSuccessGuard stg, successPrelude ip firstMsg s)
               | PairingDenied \<Rightarrow> (AtRejectedGuard stg, rejectedPrelude ip s)
               | Inconclusive \<Rightarrow> (Finished stg, s)))
     | AtSuccessGuard stg \<Rightarrow> (InSuccessBody stg (pendingConnectionCallback st), st)
     | InSuccessBody stg cb \<Rightarrow> (Finished stg, successBody ip cb st)
     | AtRejectedGuard stg \<Rightarrow> (InRejectedBody stg (pendingConnectionCallback st), st)
     | InRejectedBody stg cb \<Rightarrow> thrown stg (Some deniedMessage) (rejectedBody cb st)
     | AtExhaustedGuard e \<Rightarrow> (InExhaustedBody e (pendingConnectionCallback st), st)
     | InExhaustedBody e cb \<Rightarrow> (Finished (Ws e), exhaustedBody e cb st)
     | Finished stg \<Rightarrow> (pc, st)
     | NeverReturns stg \<Rightarrow> (pc, st)
     | Crashed stg \<Rightarrow> (pc, st))"

text \<open>
  Where the watchdog stands: posted with its delay of 15 s; taken from the queue by the
  looper and past the read of the field in its guard, about to run the body with the
  value read; or over (it ran, or it was removed from the queue before its time).
\<close>

datatype timer_pc = Posted | InTimeoutBody "nat option" | Over

definition timerStep :: "nat \<Rightarrow> timer_pc \<Rightarrow> client \<Rightarrow> timer_pc \<times> client" where
  "timerStep r pc st =
    (case pc of
       Posted \<Rightarrow>
         if r \<in> set (looperQueue st)
         then (InTimeoutBody (pendingConnectionCallback st),
               st\<lparr>looperQueue := remove1 r (looperQueue st)\<rparr>)
         else (Over, st)
     | InTimeoutBody cb \<Rightarrow> (Over, timeoutBody cb st)
     | Over \<Rightarrow> (Over, st))"

text \<open>
  A run of one \<open>connect\<close> call: the client's fields and the places of the two threads.
  A schedule names, step by step, the thread that moves. A step of a thread that is over
  changes nothing; an \<^verbatim>\<open>Error\<close> that leaves the worker's \<^verbatim>\<open>Thread { }\<close> block is caught by
  nothing, the platform's handler for uncaught exceptions ends the process, and no step
  follows it.
\<close>

datatype thread = WorkerThread | MainLooper

record run =
  shared :: client
  worker :: worker_pc
  timer :: timer_pc

definition step ::
  "jvm \<Rightarrow> string \<Rightarrow> string \<Rightarrow> nat \<Rightarrow> peer \<Rightarrow> peer \<Rightarrow> run \<Rightarrow> thread \<Rightarrow> run" where
  "step vm ip path r wssPeer wsPeer c t =
    (case worker c of
       Crashed stg \<Rightarrow> c
     | _ \<Rightarrow>
        (case t of
           WorkerThread \<Rightarrow>
             (case workerStep vm ip path wssPeer wsPeer (worker c) (shared c) of
                (pc, s) \<Rightarrow> c\<lparr>shared := s, worker := pc\<rparr>)
         | MainLooper \<Rightarrow>
             (case timerStep r (timer c) (shared c) of
                (pc, s) \<Rightarrow> c\<lparr>shared := s, timer := pc\<rparr>)))"

text \<open>
  The part of \<open>connect\<close> that runs on the caller's thread: the result is the path and
  the watchdog's identity when the worker thread is started, \<open>None\<close> when the call ends
  at "Already connecting".
\<close>

definition connect_begin :: "client \<Rightarrow> string \<Rightarrow> nat \<Rightarrow> (string \<times> nat) option \<times> client" where
  "connect_begin st ip callback =
    (if isConnecting st
     then (None, emit [InvokeCallback callback False (Some ''Already connecting'')] st)
     else
       (let s1 = client_disconnect (st\<lparr>isConnecting := True\<rparr>);
            path = connectPath (tokenRepository s1) ip;
            r = nextRunnable s1;
            s2 = s1\<lparr>pendingConnectionCallback := Some callback,
                    connectionTimeoutRunnable := Some r,
                    nextRunnable := Suc r,
                    looperQueue := looperQueue s1 @ [r]\<rparr>
        in (Some (path, r), s2)))"

text \<open>
  \<open>connect(ip, callback)\<close> and what follows it on the two threads, in the order that the
  schedule gives. A call that ends at "Already connecting" starts no thread and posts no
  watchdog: both places are at their end.
\<close>

definition connect ::
  "jvm \<Rightarrow> client \<Rightarrow> string \<Rightarrow> nat \<Rightarrow> peer \<Rightarrow> peer \<Rightarrow> thread list \<Rightarrow> run" where
  "connect vm st ip callback wssPeer wsPeer schedule =
    (case connect_begin st ip callback of
       (None, s) \<Rightarrow> \<lparr>shared = s, worker = Finished Wss, timer = Over\<rparr>
     | (Some (path, r), s0) \<Rightarrow>
         foldl (step vm ip path r wssPeer wsPeer)
           \<lparr>shared = s0, worker = Attempting Wss, timer = Posted\<rparr> schedule)"

text \<open>The callback invocations among the effects of a client.\<close>

fun isCallback :: "effect \<Rightarrow> bool" where
  "isCallback (InvokeCallback cb ok msg) = True"
| "isCallback _ = False"

definition callbacksOf :: "client \<Rightarrow> effect list" where
  "callbacksOf st = filter isCallback (effects st)"









text \<open>
  Example peers and clients: a peer that accepts the upgrade and sends one unmasked
  text frame before it closes the connection, a runtime, and a client at rest that holds
  a token for an address.
\<close>

definition textFrame :: "string \<Rightarrow> byte list" where
  "textFrame s = [0x81, of_nat (length s)] @ stringToBytes s"

definition answering :: "string \<Rightarrow> peer" where
  "answering msg =
     Answers (Some ''HTTP/1.1 101 Switching Protocols'') (textFrame msg, EndOfStream)"

definition exampleVm :: jvm where
  "exampleVm = \<lparr>heapLimit = 536870912, decodeMalformed = (\<lambda>bs. [])\<rparr>"

definition restingClient :: client where
  "restingClient =
     \<lparr>tokenRepository = [KEY_PREFIX @ ''10.0.0.5'' \<mapsto> ''12345678''],
      isConnecting = False, pendingConnectionCallback = None,
      connectionTimeoutRunnable = None, nextRunnable = 0, looperQueue = [],
      rawWebSocket = None, effects = []\<rparr>"

text \<open>
  Two first messages as a TV sends them: \<^verbatim>\<open>{"event":"ms.channel.unauthorized"}\<close> and
  \<^verbatim>\<open>{"event":"ms.channel.connect","data":{"token":"99887766"}}\<close>.
\<close>

definition unauthorizedExample :: string where
  "unauthorizedExample =
     ''{'' @ [CHR 0x22] @ ''event'' @ [CHR 0x22] @ '':'' @ [CHR 0x22]
     @ ''ms.channel.unauthorized'' @ [CHR 0x22] @ ''}''"

definition connectExample :: string where
  "connectExample =
     ''{'' @ [CHR 0x22] @ ''event'' @ [CHR 0x22] @ '':'' @ [CHR 0x22]
     @ ''ms.channel.connect'' @ [CHR 0x22] @ '','' @ [CHR 0x22] @ ''data'' @ [CHR 0x22]
     @ '':{'' @ [CHR 0x22] @ ''token'' @ [CHR 0x22] @ '':'' @ [CHR 0x22] @ ''99887766''
     @ [CHR 0x22] @ ''}}''"

text \<open>
  A first message that contains both \<^verbatim>\<open>ms.channel.unauthorized\<close> and a word of the
  success test: \<^verbatim>\<open>{"event":"ms.channel.unauthorized","to":"ms.channel.connect"}\<close>.
\<close>

definition mixedExample :: string where
  "mixedExample =
     ''{'' @ [CHR 0x22] @ ''event'' @ [CHR 0x22] @ '':'' @ [CHR 0x22]
     @ ''ms.channel.unauthorized'' @ [CHR 0x22] @ '','' @ [CHR 0x22] @ ''to'' @ [CHR 0x22]
     @ '':'' @ [CHR 0x22] @ ''ms.channel.connect'' @ [CHR 0x22] @ ''}''"

text \<open>
  A \<open>connect\<close> call of the client at rest, with callback number 7, on the example
  runtime.
\<close>

definition exampleRun :: "peer \<Rightarrow> peer \<Rightarrow> thread list \<Rightarrow> run" where
  "exampleRun wssPeer wsPeer schedule =
     connect exampleVm restingClient ''10.0.0.5'' 7 wssPeer wsPeer schedule"

text \<open>
  A schedule in which the watchdog's time comes while the worker handles the TV's first
  message: the looper takes the watchdog from the queue and reads the field in its
  guard; the worker runs \<open>connectRawWebSocket\<close> up to the guard of the success branch
  and reads the field; the watchdog's body runs; the worker's body runs.
\<close>

definition racingSchedule :: "thread list" where
  "racingSchedule = [MainLooper, WorkerThread, WorkerThread, MainLooper, WorkerThread]"

section \<open>Properties of the key map\<close>

lemma SAMSUNG_KEY_MAP_total:
  "\<exists>code. map_of SAMSUNG_KEY_MAP key = Some code \<and> code \<noteq> []"
  by (cases key) (simp_all add: SAMSUNG_KEY_MAP_def)

text \<open>
  Claim C10. The Samsung key map is total over the standard keys: every key has a
  non-empty native code and is listed by \<open>getSupportedKeys\<close>, and
  \<open>SamsungTizenHandler.sendKey\<close> never takes its unmapped-key exit.
\<close>

theorem samsung_key_map_total:
  "(\<exists>code. map_of SAMSUNG_KEY_MAP key = Some code \<and> code \<noteq> [])
   \<and> key \<in> set samsung_getSupportedKeys
   \<and> sendKey_branch env key \<noteq> UnmappedKey"
proof -
  obtain code where c: "map_of SAMSUNG_KEY_MAP key = Some code" "code \<noteq> []"
    using SAMSUNG_KEY_MAP_total by blast
  have "key \<in> fst ` set SAMSUNG_KEY_MAP"
    using c(1) by (metis domI dom_map_of_conv_image_fst)
  then have "key \<in> set samsung_getSupportedKeys"
    by (simp add: samsung_getSupportedKeys_def SAMSUNG_SUPPORTED_KEYS_def)
  moreover have "sendKey_branch env key \<noteq> UnmappedKey"
    using c by (simp add: sendKey_branch_def)
  ultimately show ?thesis using c by blast
qed

section \<open>Properties of the subnet fallback scan\<close>

lemma splitDot_not_Nil: "splitDot s \<noteq> []"
  by (induction s) (auto split: list.splits)

lemma joinDot_splitDot: "joinDot (splitDot s) = s"
proof (induction s)
  case Nil
  show ?case by simp
next
  case (Cons c cs)
  obtain p ps where sp: "splitDot cs = p # ps"
    using splitDot_not_Nil by (cases "splitDot cs") auto
  with Cons show ?case by (cases ps) auto
qed

lemma digitOf_digitChar: "d < 10 \<Longrightarrow> digitOf (digitChar d) = Some d"
proof -
  assume "d < 10"
  then have "d \<in> {0,1,2,3,4,5,6,7,8,9}" by auto
  then show ?thesis by (auto simp: digitOf_def digitChar_def)
qed

lemma digitsValue_append:
  "digitsValue acc (xs @ ys) = (case digitsValue acc xs of None \<Rightarrow> None | Some v \<Rightarrow> digitsValue v ys)"
  by (induction xs arbitrary: acc) (auto split: option.splits)

lemma digitsValue_showNat: "digitsValue 0 (showNat n) = Some n"
proof (induction n rule: showNat.induct)
  case (1 n)
  show ?case
  proof (cases "n < 10")
    case True
    then show ?thesis by (subst showNat.simps) (simp add: digitOf_digitChar)
  next
    case False
    then have "digitsValue 0 (showNat (n div 10)) = Some (n div 10)" using 1 by simp
    with False show ?thesis
      by (subst showNat.simps) (simp add: digitsValue_append digitOf_digitChar)
  qed
qed

lemma showNat_digits: "c \<in> set (showNat n) \<Longrightarrow> digitOf c \<noteq> None"
proof (induction n rule: showNat.induct)
  case (1 n)
  show ?case
  proof (cases "n < 10")
    case True
    with 1(2) show ?thesis
      by (subst (asm) showNat.simps) (simp add: digitOf_digitChar)
  next
    case False
    have "c \<in> set (showNat (n div 10)) \<or> c = digitChar (n mod 10)"
      using 1(2) False by (subst (asm) showNat.simps) auto
    then show ?thesis
      using 1(1) False by (auto simp: digitOf_digitChar)
  qed
qed

lemma showNat_not_Nil: "showNat n \<noteq> []"
  by (subst showNat.simps) simp

lemma toIntOrNull_intToString:
  assumes "0 \<le> i" "i \<le> 2147483647"
  shows "toIntOrNull (intToString i) = Some i"
proof -
  obtain c cs where s: "showNat (nat i) = c # cs"
    using showNat_not_Nil by (cases "showNat (nat i)") auto
  have "digitOf c \<noteq> None" using showNat_digits[of c "nat i"] s by simp
  then have "\<not> (of_char c :: nat) < 48" by (auto simp: digitOf_def Let_def split: if_splits)
  moreover have "digitsValue 0 (c # cs) = Some (nat i)"
    using digitsValue_showNat[of "nat i"] s by simp
  ultimately show ?thesis using assms s
    by (simp add: toIntOrNull_def intToString_def del: digitsValue.simps)
qed

lemma takeWhile_all: "(\<And>x. x \<in> set xs \<Longrightarrow> P x) \<Longrightarrow> takeWhile P xs = xs"
  by (induction xs) auto

lemma parseInt10_showNat:
  "parseInt10 (showNat n) = Some (int n)"
proof -
  obtain c cs where s: "showNat n = c # cs"
    using showNat_not_Nil by (cases "showNat n") auto
  have dc: "digitOf c \<noteq> None" using showNat_digits[of c n] s by simp
  then have nws: "\<not> isJsWhiteSpace c" and ns: "c \<noteq> CHR ''-''" "c \<noteq> CHR ''+''"
    by (auto simp: digitOf_def isJsWhiteSpace_def Let_def split: if_splits)
  have tw: "takeWhile isDecimalDigit (c # cs) = c # cs"
    by (rule takeWhile_all) (metis isDecimalDigit_def s showNat_digits)
  have dv: "digitsValue 0 (c # cs) = Some n"
    using digitsValue_showNat[of n] s by simp
  show ?thesis using s nws ns
    by (simp add: parseInt10_def tw dv Let_def del: digitsValue.simps takeWhile.simps)
qed

lemma parseInt10_minus_showNat:
  "parseInt10 (CHR ''-'' # showNat n) = Some (- int n)"
proof -
  have tw: "takeWhile isDecimalDigit (showNat n) = showNat n"
    by (rule takeWhile_all) (metis isDecimalDigit_def showNat_digits)
  obtain c cs where s: "showNat n = c # cs"
    using showNat_not_Nil by (cases "showNat n") auto
  have dv: "digitsValue 0 (c # cs) = Some n"
    using digitsValue_showNat[of n] s by simp
  have tw': "takeWhile isDecimalDigit (c # cs) = c # cs" using tw s by simp
  show ?thesis using s
    by (simp add: parseInt10_def isJsWhiteSpace_def tw' dv Let_def del: digitsValue.simps takeWhile.simps)
qed

lemma parseInt10_intToString: "parseInt10 (intToString i) = Some i"
  by (simp add: intToString_def parseInt10_showNat parseInt10_minus_showNat)

lemma intToString_inject: "intToString i = intToString k \<Longrightarrow> i = k"
  by (metis option.inject parseInt10_intToString)

lemma splitDot_four:
  "splitDot s = [p0, p1, p2, p3] \<Longrightarrow> s = p0 @ ''.'' @ p1 @ ''.'' @ p2 @ ''.'' @ p3"
  using joinDot_splitDot[of s] by simp

text \<open>
  Claim C9. For a caller address with four dot-separated parts, neither probe list
  (the native port scan over 1..60, the registry's generated list over 1..50) nor the
  native scan's result contains the caller's own address, and neither list contains the
  subnet address whose last octet is the caller's parsed last octet.
\<close>

theorem subnet_scan_excludes_own_address:
  assumes four: "splitDot deviceIp = [p0, p1, p2, p3]"
  shows "deviceIp \<notin> set (scanProbeIps (Some deviceIp))
       \<and> deviceIp \<notin> set (scanSubnetForTvPorts portOpen (Some deviceIp))
       \<and> deviceIp \<notin> set (generateSubnetIps deviceIp)
       \<and> (\<forall>k. toIntOrNull p3 = Some k \<longrightarrow>
             p0 @ ''.'' @ p1 @ ''.'' @ p2 @ ''.'' @ intToString k \<notin> set (scanProbeIps (Some deviceIp)))
       \<and> (\<forall>k. parseInt10 p3 = Some k \<longrightarrow>
             p0 @ ''.'' @ p1 @ ''.'' @ p2 @ ''.'' @ intToString k \<notin> set (generateSubnetIps deviceIp))"
proof -
  have own: "deviceIp = p0 @ ''.'' @ p1 @ ''.'' @ p2 @ ''.'' @ p3"
    using four by (rule splitDot_four)
  have a: "deviceIp \<notin> set (scanProbeIps (Some deviceIp))"
  proof (cases "toIntOrNull p3")
    case None
    then show ?thesis using four by (simp add: scanProbeIps_def)
  next
    case (Some m)
    show ?thesis
    proof
      assume "deviceIp \<in> set (scanProbeIps (Some deviceIp))"
      then obtain i where i: "1 \<le> i" "i \<le> 60" "i \<noteq> m"
        and eq: "deviceIp = (p0 @ ''.'' @ p1 @ ''.'' @ p2) @ ''.'' @ intToString i"
        using four Some by (auto simp: scanProbeIps_def Let_def)
      from eq own have "p3 = intToString i" by simp
      then have "toIntOrNull p3 = Some i" using i toIntOrNull_intToString[of i] by simp
      with Some i show False by simp
    qed
  qed
  have b: "deviceIp \<notin> set (scanSubnetForTvPorts portOpen (Some deviceIp))"
    using a by (simp add: scanSubnetForTvPorts_def)
  have c: "deviceIp \<notin> set (generateSubnetIps deviceIp)"
  proof
    assume "deviceIp \<in> set (generateSubnetIps deviceIp)"
    then obtain i where i: "Some i \<noteq> parseInt10 p3"
      and eq: "deviceIp = (p0 @ ''.'' @ p1 @ ''.'' @ p2) @ ''.'' @ intToString i"
      using four by (auto simp: generateSubnetIps_def Let_def)
    from eq own have "p3 = intToString i" by simp
    then have "parseInt10 p3 = Some i" by (simp add: parseInt10_intToString)
    with i show False by simp
  qed
  have d: "p0 @ ''.'' @ p1 @ ''.'' @ p2 @ ''.'' @ intToString k \<notin> set (scanProbeIps (Some deviceIp))"
    if "toIntOrNull p3 = Some k" for k
    using four that by (auto simp: scanProbeIps_def Let_def dest: intToString_inject)
  have e: "p0 @ ''.'' @ p1 @ ''.'' @ p2 @ ''.'' @ intToString k \<notin> set (generateSubnetIps deviceIp)"
    if "parseInt10 p3 = Some k" for k
    using four that by (auto simp: generateSubnetIps_def Let_def dest: intToString_inject)
  show ?thesis using a b c d e by blast
qed


theorem subnet_scan_excludes_own_address_witness:
  "splitDot ''192.168.1.7'' = [''192'', ''168'', ''1'', ''7'']
   \<and> ''192.168.1.7'' \<notin> set (scanProbeIps (Some ''192.168.1.7''))
   \<and> ''192.168.1.7'' \<notin> set (scanSubnetForTvPorts (\<lambda>ip. True) (Some ''192.168.1.7''))
   \<and> ''192.168.1.7'' \<notin> set (generateSubnetIps ''192.168.1.7'')
   \<and> toIntOrNull ''7'' = Some 7 \<and> parseInt10 ''7'' = Some 7
   \<and> ''192.168.1.8'' \<in> set (scanProbeIps (Some ''192.168.1.7''))
   \<and> ''192.168.1.8'' \<in> set (generateSubnetIps ''192.168.1.7'')"
proof -
  have s: "splitDot ''192.168.1.7'' = [''192'', ''168'', ''1'', ''7'']" by simp
  have t: "toIntOrNull ''7'' = Some 7" by (simp add: toIntOrNull_def digitOf_def)
  have p: "parseInt10 ''7'' = Some 7"
    by (simp add: parseInt10_def digitOf_def isJsWhiteSpace_def isDecimalDigit_def)
  have e: "intToString 8 = ''8''" by (simp add: intToString_def digitChar_def showNat.simps)
  have m1: "''192.168.1.8'' \<in> set (scanProbeIps (Some ''192.168.1.7''))"
  proof -
    have "''192.168.1.8'' \<in> (\<lambda>i. (''192'' @ ''.'' @ ''168'' @ ''.'' @ ''1'') @ ''.'' @ intToString i) ` {i \<in> {1..60}. i \<noteq> 7}"
      by (rule image_eqI [where x = 8]) (simp_all add: e)
    then show ?thesis by (simp add: scanProbeIps_def s t)
  qed
  have m2: "''192.168.1.8'' \<in> set (generateSubnetIps ''192.168.1.7'')"
  proof -
    have "''192.168.1.8'' \<in> (\<lambda>i. (''192'' @ ''.'' @ ''168'' @ ''.'' @ ''1'') @ ''.'' @ intToString i) ` {i \<in> {1..50}. Some i \<noteq> Some 7}"
      by (rule image_eqI [where x = 8]) (simp_all add: e)
    then show ?thesis by (simp add: generateSubnetIps_def s p)
  qed
  show ?thesis
    using subnet_scan_excludes_own_address [OF s, of "\<lambda>ip. True"] s t p m1 m2 by blast
qed

section \<open>Properties of identification\<close>

text \<open>
  Claim C7, as the code has it. The scenario body (type \<^verbatim>\<open>Samsung SmartTV\<close>, a name, a
  model name, no \<^verbatim>\<open>OS\<close>) at status 200 gives a device with port 8002 and os
  \<^verbatim>\<open>'Tizen'\<close>. \<open>identify\<close> gives \<^verbatim>\<open>null\<close> for a rejected fetch (network error or
  timeout), a status outside 200..299, a body that is not JSON, and a body that fails
  all three brand tests of \<open>isSamsung\<close>; a success status with a body passing one of the
  tests gives a device with port 8002. Being a total function into \<open>option\<close>, it never
  throws.
\<close>

theorem identify_scenario_and_null_cases:
  "(\<exists>d. identify ''10.0.0.5'' (Response 200 (Json
        (JObj [(''device'', JObj [(''type'', JStr ''Samsung SmartTV''),
                                  (''name'', JStr ''Living Room TV''),
                                  (''modelName'', JStr ''X'')])]))) = Some d
        \<and> dev_port d = Some 8002 \<and> dev_os d = JStr ''Tizen'')
   \<and> identify ip_addr (FetchRejected e) = None
   \<and> (\<not> response_ok status \<longrightarrow> identify ip_addr (Response status body) = None)
   \<and> identify ip_addr (Response status InvalidJson) = None
   \<and> (\<not> isSamsung data \<longrightarrow> identify ip_addr (Response status (Json data)) = None)
   \<and> (response_ok status \<and> isSamsung data \<longrightarrow>
        (\<exists>d. identify ip_addr (Response status (Json data)) = Some d
           \<and> dev_port d = Some 8002 \<and> dev_brand d = samsung_tizen \<and> dev_ip d = ip_addr
           \<and> dev_os d = jsOr (getProp (getProp data ''device'') ''OS'') (JStr ''Tizen'')))"
  by (simp add: identify_def isSamsung_def response_ok_def jsOr_def Let_def)

theorem identify_scenario_and_null_cases_witness:
  "\<not> response_ok 404
   \<and> identify ''10.0.0.5'' (Response 404 (Json (JObj []))) = None
   \<and> \<not> isSamsung (JObj [(''device'', JObj [(''name'', JStr ''LG TV''), (''type'', JStr ''LG'')])])
   \<and> identify ''10.0.0.5'' (Response 200 (Json
         (JObj [(''device'', JObj [(''name'', JStr ''LG TV''), (''type'', JStr ''LG'')])]))) = None
   \<and> response_ok 200
   \<and> isSamsung (JObj [(''device'', JObj [(''type'', JStr ''Samsung SmartTV''), (''OS'', JStr ''Tizen 6.0'')])])
   \<and> (\<exists>d. identify ''10.0.0.5'' (Response 200 (Json
         (JObj [(''device'', JObj [(''type'', JStr ''Samsung SmartTV''), (''OS'', JStr ''Tizen 6.0'')])]))) = Some d
         \<and> dev_port d = Some 8002 \<and> dev_os d = JStr ''Tizen 6.0'')"
proof -
  let ?lg = "JObj [(''device'', JObj [(''name'', JStr ''LG TV''), (''type'', JStr ''LG'')])]"
  let ?sam = "JObj [(''device'', JObj [(''type'', JStr ''Samsung SmartTV''), (''OS'', JStr ''Tizen 6.0'')])]"
  have a: "\<not> response_ok 404" and b: "response_ok 200"
    by (simp_all add: response_ok_def)
  have c: "\<not> isSamsung ?lg" by code_simp
  have d: "isSamsung ?sam" by (simp add: isSamsung_def)
  have os: "jsOr (getProp (getProp ?sam ''device'') ''OS'') (JStr ''Tizen'') = JStr ''Tizen 6.0''"
    by (simp add: jsOr_def)
  show ?thesis
    using identify_scenario_and_null_cases [of "''10.0.0.5''" "''''" 404 "Json (JObj [])" ?lg]
          identify_scenario_and_null_cases [of "''10.0.0.5''" "''''" 200 "Json (JObj [])" ?lg]
          identify_scenario_and_null_cases [of "''10.0.0.5''" "''''" 200 "Json (JObj [])" ?sam]
          a b c d os
    by metis
qed

text \<open>
  The claim as stated fails: a body whose \<^verbatim>\<open>device.type\<close> is not the brand's string is
  still accepted when the device name contains \<^verbatim>\<open>samsung\<close>.
\<close>

theorem identify_device_type_counterexample:
  "getProp (getProp (JObj [(''device'', JObj [(''type'', JStr ''Soundbar''),
                                              (''name'', JStr ''Samsung Soundbar'')])]) ''device'') ''type''
     \<noteq> JStr ''Samsung SmartTV''
   \<and> identify ''10.0.0.5'' (Response 200 (Json
        (JObj [(''device'', JObj [(''type'', JStr ''Soundbar''),
                                  (''name'', JStr ''Samsung Soundbar'')])]))) \<noteq> None"
  by code_simp

section \<open>Properties of the handler registry\<close>

lemma getHandler_None:
  "dev_brand device \<notin> h_brand ` set (handlers reg) \<Longrightarrow> getHandler reg device = None"
  by (force simp: getHandler_def find_None_iff)

text \<open>
  Claim C5. When no registered handler has the device's brand, \<open>connect\<close> rejects with
  the "No handler available" error and returns the registry as it was: no handler
  method was called and no listener notified (the trace is unchanged), and the active
  handler, active device and subscription are the ones from before the call.
\<close>

theorem connect_unregistered_brand_rejects:
  assumes "dev_brand device \<notin> h_brand ` set (handlers reg)"
  shows "registry_connect reg device =
           (Throws (''No handler available for brand: '' @ brandString (dev_brand device)), reg)"
  using assms by (simp add: registry_connect_def getHandler_None)

theorem connect_unregistered_brand_rejects_witness:
  "dev_brand (exampleDevice lg_webos) \<notin> h_brand ` set (handlers activeRegistry)
   \<and> registry_connect activeRegistry (exampleDevice lg_webos) =
       (Throws ''No handler available for brand: lg_webos'', activeRegistry)
   \<and> io_log (snd (registry_connect activeRegistry (exampleDevice lg_webos))) = []
   \<and> map_option h_ref (activeHandler (snd (registry_connect activeRegistry (exampleDevice lg_webos)))) = Some 1"
proof -
  have h: "dev_brand (exampleDevice lg_webos) \<notin> h_brand ` set (handlers activeRegistry)"
    by (simp add: exampleDevice_def activeRegistry_def exampleHandler_def samsungTizenHandler_def)
  have b: "brandString (dev_brand (exampleDevice lg_webos)) = ''lg_webos''"
    by (simp add: exampleDevice_def)
  have r: "registry_connect activeRegistry (exampleDevice lg_webos) =
       (Throws ''No handler available for brand: lg_webos'', activeRegistry)"
    using connect_unregistered_brand_rejects [OF h] b by simp
  show ?thesis using h r
    by (simp add: activeRegistry_def exampleHandler_def samsungTizenHandler_def)
qed

text \<open>
  Claim C6. With no active handler, \<open>sendKey\<close>, \<open>sendRawKey\<close> and \<open>launchApp\<close> each resolve
  to \<^verbatim>\<open>false\<close> (they do not reject) without calling anything; \<open>sendRawKey\<close> and
  \<open>launchApp\<close> also resolve to \<^verbatim>\<open>false\<close> when the active handler lacks the method.
\<close>

theorem send_without_session_returns_false:
  "(activeHandler reg = None \<longrightarrow>
       registry_sendKey reg key = (Returns False, reg)
     \<and> registry_sendRawKey reg raw = (Returns False, reg)
     \<and> registry_launchApp reg appId = (Returns False, reg))
   \<and> (\<forall>h. activeHandler reg = Some h \<and> h_sendRawKey h = None \<longrightarrow>
         registry_sendRawKey reg raw = (Returns False, reg))
   \<and> (\<forall>h. activeHandler reg = Some h \<and> h_launchApp h = None \<longrightarrow>
         registry_launchApp reg appId = (Returns False, reg))"
  by (simp add: registry_sendKey_def registry_sendRawKey_def registry_launchApp_def)

theorem send_without_session_returns_false_witness:
  "activeHandler idleRegistry = None
   \<and> registry_sendKey idleRegistry Key_volume_up = (Returns False, idleRegistry)
   \<and> registry_sendRawKey idleRegistry ''KEY_NETFLIX'' = (Returns False, idleRegistry)
   \<and> registry_launchApp idleRegistry ''Netflix'' = (Returns False, idleRegistry)
   \<and> activeHandler activeRegistry = Some exampleHandler
   \<and> h_sendRawKey exampleHandler = None \<and> h_launchApp exampleHandler = None
   \<and> registry_sendRawKey activeRegistry ''KEY_NETFLIX'' = (Returns False, activeRegistry)
   \<and> registry_launchApp activeRegistry ''Netflix'' = (Returns False, activeRegistry)"
proof -
  have a: "activeHandler idleRegistry = None" by (simp add: idleRegistry_def)
  have b: "activeHandler activeRegistry = Some exampleHandler" by (simp add: activeRegistry_def)
  have c: "h_sendRawKey exampleHandler = None" "h_launchApp exampleHandler = None"
    by (simp_all add: exampleHandler_def samsungTizenHandler_def)
  show ?thesis
    using send_without_session_returns_false [of idleRegistry Key_volume_up "''KEY_NETFLIX''" "''Netflix''"]
          send_without_session_returns_false [of activeRegistry Key_volume_up "''KEY_NETFLIX''" "''Netflix''"]
          a b c
    by simp
qed

section \<open>Properties of the frame codec\<close>

lemma toByte_xor: "toByte (toInt a XOR toInt b) = a XOR b"
  by (simp add: toByte_def toInt_def flip: word_wi_log_defs(4))

lemma length_xorMask [simp]: "length (xorMask maskKey payload) = length payload"
  by (simp add: xorMask_def)

lemma xorMask_nth:
  "i < length payload \<Longrightarrow> xorMask maskKey payload ! i = payload ! i XOR maskKey ! (i mod 4)"
  by (simp add: xorMask_def nth_enumerate_eq toByte_xor)

lemma xorMask_xorMask: "xorMask maskKey (xorMask maskKey payload) = payload"
  by (rule nth_equalityI) (simp_all add: xorMask_nth bit.xor_self word_bw_assocs)

lemma length_stringToBytes [simp]: "length (stringToBytes s) = length s"
  by (simp add: stringToBytes_def)

lemma wrapLong_id: "- (2 ^ 63) \<le> k \<Longrightarrow> k < 2 ^ 63 \<Longrightarrow> wrapLong k = k"
  unfolding wrapLong_def by (rule signed_take_bit_int_eq_self) simp_all

lemma wrapInt_id: "- (2 ^ 31) \<le> k \<Longrightarrow> k < 2 ^ 31 \<Longrightarrow> wrapInt k = k"
  unfolding wrapInt_def by (rule signed_take_bit_int_eq_self) simp_all

lemma longToInt_id: "- (2 ^ 31) \<le> k \<Longrightarrow> k < 2 ^ 31 \<Longrightarrow> longToInt k = k"
  unfolding longToInt_def by (rule signed_take_bit_int_eq_self) simp_all

lemma wellFormedUtf8_ascii: "\<forall>b \<in> set bs. b \<le> 0x7F \<Longrightarrow> wellFormedUtf8 bs"
  by (induction bs) simp_all

lemma decodeUtf8_stringToBytes:
  "wellFormedUtf8 (stringToBytes s) \<Longrightarrow> decodeUtf8 vm (stringToBytes s) = s"
  by (simp add: decodeUtf8_def stringToBytes_def unat_of_nat map_idI)

lemma char_of_zero: "char_of (0::nat) = CHR 0x00"
  by (simp add: char_of_def)

lemma decodeUtf8_zeros: "decodeUtf8 vm (replicate n 0) = replicate n (CHR 0x00)"
  by (simp add: decodeUtf8_def wellFormedUtf8_ascii char_of_zero)

lemma readPayload_done:
  "\<not> bytesRead < payloadLength \<Longrightarrow>
     readPayload input payload bytesRead payloadLength = Some (Some (payload, input))"
  by (subst readPayload.simps) simp

lemma readPayload_at_end:
  assumes "bytesRead < payloadLength" "0 \<le> bytesRead" "payloadLength < 2 ^ 31"
    and "payloadLength \<le> int (length payload)"
  shows "readPayload ([], e) payload bytesRead payloadLength =
           (case e of
              EndOfStream \<Rightarrow> Some (Some (payload, ([], e)))
            | ReadThrows \<Rightarrow> Some None
            | ReadBlocks \<Rightarrow> None)"
proof -
  have d: "longToInt (wrapLong (payloadLength - bytesRead)) = payloadLength - bytesRead"
    using assms by (simp add: wrapLong_id longToInt_id)
  show ?thesis
    using assms
    by (subst readPayload.simps) (simp add: d readBytes_def atEnd_def split: ending.splits)
qed

lemma readPayload_in_range:
  assumes "0 \<le> payloadLength" "payloadLength < 2 ^ 31"
  shows "readPayload (bs, e) (replicate (nat payloadLength) 0) 0 payloadLength =
           (if nat payloadLength \<le> length bs
            then Some (Some (take (nat payloadLength) bs, (drop (nat payloadLength) bs, e)))
            else (case e of
                    EndOfStream \<Rightarrow>
                      Some (Some (bs @ replicate (nat payloadLength - length bs) 0, ([], e)))
                  | ReadThrows \<Rightarrow> Some None
                  | ReadBlocks \<Rightarrow> None))"
proof (cases "payloadLength = 0")
  case True
  then show ?thesis by (simp add: readPayload_done)
next
  case False
  with assms have pos: "0 < payloadLength" by simp
  have d: "longToInt (wrapLong payloadLength) = payloadLength"
    using assms by (simp add: wrapLong_id longToInt_id)
  show ?thesis
  proof (cases "bs = []")
    case True
    then show ?thesis using pos assms by (simp add: readPayload_at_end split: ending.splits)
  next
    case False
    define m where "m = min (nat payloadLength) (length bs)"
    have m: "0 < m" "int m \<le> payloadLength" using False pos by (auto simp: m_def)
    have w: "wrapInt (int m) = int m" using m assms by (simp add: wrapInt_id)
    have mm: "min (nat payloadLength) (length bs) = m" by (simp add: m_def)
    have step: "readPayload (bs, e) (replicate (nat payloadLength) 0) 0 payloadLength =
       readPayload (drop m bs, e) (take m bs @ replicate (nat payloadLength - m) 0) (int m) payloadLength"
      using pos False m
      by (subst readPayload.simps) (simp add: d readBytes_def w mm Let_def)
    show ?thesis
    proof (cases "int m < payloadLength")
      case True
      then have short: "length bs < nat payloadLength" "m = length bs"
        by (auto simp: m_def)
      then show ?thesis using True assms
        by (simp add: step readPayload_at_end split: ending.splits)
    next
      case False
      then have "m = nat payloadLength" "nat payloadLength \<le> length bs"
        using m by (auto simp: m_def)
      then show ?thesis using False by (simp add: step readPayload_done)
    qed
  qed
qed

text \<open>The payload of a frame after the mask, if there is one, is taken off.\<close>

lemma readWebSocketFrame_negative:
  assumes h: "readHeader input = Got (Some h)" and neg: "longToInt (fh_payloadLength h) < 0"
  shows "readWebSocketFrame vm input output = Some (Null, output)"
  using neg by (subst readWebSocketFrame.simps) (simp add: h)

lemma readWebSocketFrame_too_large:
  assumes h: "readHeader input = Got (Some h)"
    and big: "int (heapLimit vm) < longToInt (fh_payloadLength h)"
  shows "readWebSocketFrame vm input output =
           Some (OutOfMemory (nat (longToInt (fh_payloadLength h))), output)"
proof -
  have "\<not> longToInt (fh_payloadLength h) < 0" using big by linarith
  then show ?thesis using big by (subst readWebSocketFrame.simps) (simp add: h)
qed

lemma readWebSocketFrame_data:
  assumes h: "readHeader input = Got (Some h)"
    and len: "0 \<le> fh_payloadLength h" "fh_payloadLength h < 2 ^ 31"
    and heap: "fh_payloadLength h \<le> int (heapLimit vm)"
    and op: "fh_opcode h \<noteq> 8" "fh_opcode h \<noteq> 9" "fh_opcode h \<noteq> 10"
    and bytes: "nat (fh_payloadLength h) \<le> length (fst (fh_rest h)) \<or> snd (fh_rest h) = EndOfStream"
  shows "readWebSocketFrame vm input output =
     Some (Text (decodeUtf8 vm
              ((case fh_maskKey h of None \<Rightarrow> (\<lambda>raw. raw) | Some maskKey \<Rightarrow> xorMask maskKey)
                 (take (nat (fh_payloadLength h)) (fst (fh_rest h))
                    @ replicate (nat (fh_payloadLength h) - length (fst (fh_rest h))) 0)))
             (drop (nat (fh_payloadLength h)) (fst (fh_rest h)), snd (fh_rest h)),
           output)"
proof -
  obtain bs e where r: "fh_rest h = (bs, e)" by (cases "fh_rest h")
  show ?thesis
    using len heap op bytes
    by (subst readWebSocketFrame.simps)
       (auto simp: h r longToInt_id readPayload_in_range Let_def split: option.splits)
qed

lemma readWebSocketFrame_read_throws:
  assumes h: "readHeader input = Got (Some h)"
    and len: "0 \<le> fh_payloadLength h" "fh_payloadLength h < 2 ^ 31"
    and heap: "fh_payloadLength h \<le> int (heapLimit vm)"
    and bytes: "length (fst (fh_rest h)) < nat (fh_payloadLength h)" "snd (fh_rest h) = ReadThrows"
  shows "readWebSocketFrame vm input output = Some (Null, output)"
proof -
  obtain bs e where r: "fh_rest h = (bs, e)" by (cases "fh_rest h")
  show ?thesis
    using len heap bytes
    by (subst readWebSocketFrame.simps)
       (auto simp: h r longToInt_id readPayload_in_range Let_def split: option.splits)
qed

lemma readWebSocketFrame_read_blocks:
  assumes h: "readHeader input = Got (Some h)"
    and len: "0 \<le> fh_payloadLength h" "fh_payloadLength h < 2 ^ 31"
    and heap: "fh_payloadLength h \<le> int (heapLimit vm)"
    and bytes: "length (fst (fh_rest h)) < nat (fh_payloadLength h)" "snd (fh_rest h) = ReadBlocks"
  shows "readWebSocketFrame vm input output = None"
proof -
  obtain bs e where r: "fh_rest h = (bs, e)" by (cases "fh_rest h")
  show ?thesis
    using len heap bytes
    by (subst readWebSocketFrame.simps)
       (auto simp: h r longToInt_id readPayload_in_range Let_def split: option.splits)
qed

lemma uint_toByte: "uint (toByte k) = take_bit 8 k"
  by (simp add: toByte_def uint_word_of_int_eq)

lemma small_len_byte:
  assumes "0 \<le> n" "n \<le> 125"
  shows "uint (toByte (0x80 OR n)) AND 0x7F = n" and "uint (toByte (0x80 OR n)) AND 0x80 \<noteq> 0"
proof -
  have n7: "take_bit 7 n = n" using assms by (simp add: take_bit_int_eq_self)
  have m7: "(0x7F :: int) = mask 7" and m8: "(0xFF :: int) = mask 8" by (simp_all add: mask_eq_exp_minus_1)
  have "uint (toByte (0x80 OR n)) AND 0x7F = take_bit 7 (take_bit 8 (0x80 OR n))"
    unfolding uint_toByte m7 by (simp add: take_bit_eq_mask)
  also have "\<dots> = take_bit 7 (0x80 OR n)" by simp
  also have "\<dots> = take_bit 7 (0x80 :: int) OR take_bit 7 n" by (simp only: take_bit_or)
  also have "\<dots> = n" using n7 by simp
  finally show "uint (toByte (0x80 OR n)) AND 0x7F = n" .
  have "bit (uint (toByte (0x80 OR n)) AND 0x80) 7"
    unfolding uint_toByte by (simp add: bit_simps)
  then show "uint (toByte (0x80 OR n)) AND 0x80 \<noteq> 0" by auto
qed

lemma large_len_bytes:
  assumes "0 \<le> n" "n \<le> 65535"
  shows "push_bit 8 (uint (toByte (drop_bit 8 (toShort n)))) OR uint (toByte (toShort n)) = n"
proof -
  have n16: "take_bit 16 n = n" using assms by (simp add: take_bit_int_eq_self)
  have "push_bit 8 (uint (toByte (drop_bit 8 (toShort n)))) OR uint (toByte (toShort n)) = take_bit 16 n"
    unfolding uint_toByte toShort_def
    by (rule bit_eqI) (auto simp: bit_simps)
  then show ?thesis using n16 by simp
qed

lemma putShort_65536: "putShort (toShort 65536) = [0, 0]"
  by (simp add: putShort_def toShort_def toByte_def)


lemma readMaskKey_append:
  "length maskKey = 4 \<Longrightarrow> readMaskKey (maskKey @ rest, e) = Got (maskKey, (rest, e))"
  by (auto simp: readMaskKey_def)

lemma toByte_numerals: "toByte 0x81 = 0x81" "toByte 0xFE = 0xFE"
  by (simp_all add: toByte_def)

lemma uint_not_eof [simp]: "uint (w :: byte) \<noteq> - 1"
  using uint_ge_0 [of w] by linarith

lemma readHeader_encodeFrame:
  assumes mk: "length maskKey = 4" and len: "length payload \<le> 65535"
  shows "readHeader (encodeFrame maskKey payload @ rest, e) =
           Got (Some \<lparr>fh_opcode = 1, fh_masked = True, fh_payloadLength = int (length payload),
                      fh_maskKey = Some maskKey, fh_rest = (xorMask maskKey payload @ rest, e)\<rparr>)"
proof (cases "length payload \<le> 125")
  case True
  then have n: "0 \<le> int (length payload)" "int (length payload) \<le> 125" by simp_all
  note b = small_len_byte [OF n]
  have ne: "int (length payload) \<noteq> 126" "int (length payload) \<noteq> 127" using True by simp_all
  show ?thesis
    using True b ne
    by (simp add: encodeFrame_def readHeader_def rdBind_def toByte_numerals readLength_def
          readMaskKey_append [OF mk])
next
  case False
  then have n: "0 \<le> int (length payload)" "int (length payload) \<le> 65535" using len by simp_all
  note b = large_len_bytes [OF n]
  show ?thesis
    using False b
    by (simp add: encodeFrame_def readHeader_def rdBind_def toByte_numerals readLength_def
          putShort_def readMaskKey_append [OF mk])
qed

lemma sendWebSocketFrame_Some:
  "length text \<le> 2147483639 \<Longrightarrow>
     sendWebSocketFrame output maskKey text = Some (output @ encodeFrame maskKey (stringToBytes text))"
  by (simp add: sendWebSocketFrame_def Let_def wrapInt_id)

text \<open>
  The round trip for every text of at most 65535 bytes that the runtime can allocate:
  decoding what the encoder wrote returns the text and leaves the rest of the stream.
\<close>

lemma frame_roundtrip:
  assumes mk: "length maskKey = 4" and len: "length text \<le> 65535"
    and wf: "wellFormedUtf8 (stringToBytes text)"
    and heap: "length text \<le> heapLimit vm"
  shows "readWebSocketFrame vm (encodeFrame maskKey (stringToBytes text) @ rest, e) output =
           Some (Text text (rest, e), output)"
proof -
  have l: "length (stringToBytes text) \<le> 65535" using len by simp
  note h = readHeader_encodeFrame [OF mk l, of rest e]
  show ?thesis
    using len heap
    by (subst readWebSocketFrame_data [OF h])
       (simp_all add: xorMask_xorMask decodeUtf8_stringToBytes [OF wf])
qed

text \<open>
  Claim C1 at its last size, evaluated. For a text of 65536 bytes the encoder writes the
  marker 126 (byte \<open>0xFE\<close>) followed by the 16-bit truncation of the size, which is
  zero: no marker 127, no 64-bit length. Decoding the frame returns the empty string
  and leaves the 65536 payload bytes unread on the stream, on every runtime and whatever
  follows the frame on the stream. (For every size up to 65535 the round trip holds:
  lemma \<open>frame_roundtrip\<close>.)
\<close>

theorem frame_roundtrip_fails_at_65536:
  "\<exists>masked. length masked = 65536
     \<and> sendWebSocketFrame [] [0x12, 0x34, 0x56, 0x78] (replicate 65536 CHR ''a'')
         = Some ([0x81, 0xFE, 0x00, 0x00, 0x12, 0x34, 0x56, 0x78] @ masked)
     \<and> readWebSocketFrame vm ([0x81, 0xFE, 0x00, 0x00, 0x12, 0x34, 0x56, 0x78] @ masked, e) []
         = Some (Text [] (masked, e), [])"
proof -
  let ?mk = "[0x12, 0x34, 0x56, 0x78] :: byte list"
  let ?masked = "xorMask ?mk (stringToBytes (replicate 65536 CHR ''a''))"
  have enc: "sendWebSocketFrame [] ?mk (replicate 65536 CHR ''a'')
               = Some ([0x81, 0xFE, 0x00, 0x00, 0x12, 0x34, 0x56, 0x78] @ ?masked)"
    by (simp add: sendWebSocketFrame_Some encodeFrame_def toByte_numerals putShort_65536)
  have hdr: "readHeader ([0x81, 0xFE, 0x00, 0x00, 0x12, 0x34, 0x56, 0x78] @ ?masked, e)
               = Got (Some \<lparr>fh_opcode = 1, fh_masked = True, fh_payloadLength = 0,
                            fh_maskKey = Some ?mk, fh_rest = (?masked, e)\<rparr>)"
    by (simp add: readHeader_def rdBind_def readLength_def readMaskKey_def)
  have dec: "readWebSocketFrame vm ([0x81, 0xFE, 0x00, 0x00, 0x12, 0x34, 0x56, 0x78] @ ?masked, e) []
               = Some (Text [] (?masked, e), [])"
    by (subst readWebSocketFrame_data [OF hdr])
       (simp_all add: xorMask_def decodeUtf8_def)
  have "length ?masked = 65536" by simp
  with enc dec show ?thesis by blast
qed

text \<open>
  Claim C8. Every frame that \<open>sendWebSocketFrame\<close> appends to the output has the mask bit
  set in its second byte, carries the four bytes of the mask key right after the length
  field (a header of 2 bytes, or 4 with the 16-bit length), and XOR-ing the \<open>i\<close>-th
  byte after the key with \<open>maskKey[i % 4]\<close> gives back the \<open>i\<close>-th payload byte.
\<close>

theorem client_frame_is_masked:
  assumes mk: "length maskKey = 4"
    and sent: "sendWebSocketFrame output maskKey text = Some output'"
  shows "\<exists>header masked.
           output' = output @ header @ maskKey @ masked
         \<and> length header = (if length text \<le> 125 then 2 else 4)
         \<and> header ! 1 AND 0x80 = 0x80
         \<and> length masked = length (stringToBytes text)
         \<and> xorMask maskKey masked = stringToBytes text
         \<and> (\<forall>i < length masked. masked ! i XOR maskKey ! (i mod 4) = stringToBytes text ! i)"
proof -
  let ?payload = "stringToBytes text"
  let ?header = "[toByte 0x81]
      @ (if int (length ?payload) \<le> 125 then [toByte (0x80 OR int (length ?payload))]
         else [toByte 0xFE] @ putShort (toShort (int (length ?payload))))"
  let ?masked = "xorMask maskKey ?payload"
  have out: "output' = output @ ?header @ maskKey @ ?masked"
    using sent by (auto simp: sendWebSocketFrame_def encodeFrame_def Let_def split: if_splits)
  have len: "length ?header = (if length text \<le> 125 then 2 else 4)"
    by (simp add: putShort_def)
  have bit: "?header ! 1 AND 0x80 = 0x80"
  proof (cases "int (length ?payload) \<le> 125")
    case True
    have "toByte (0x80 OR int (length ?payload)) AND 0x80 = (0x80 :: byte)"
      by (simp add: toByte_def word_ao_absorbs flip: word_wi_log_defs(3))
    with True show ?thesis by simp
  next
    case False
    then show ?thesis by (simp add: toByte_numerals)
  qed
  have rec: "\<forall>i < length ?masked. ?masked ! i XOR maskKey ! (i mod 4) = ?payload ! i"
    by (simp add: xorMask_nth word_bw_assocs)
  show ?thesis
    using out len bit rec xorMask_xorMask [of maskKey ?payload]
    by (intro exI [of _ ?header] exI [of _ ?masked]) simp
qed

theorem client_frame_is_masked_witness:
  "length [0x01, 0x02, 0x03, 0x04 :: byte] = 4
   \<and> sendWebSocketFrame [] [0x01, 0x02, 0x03, 0x04] ''hi'' =
        Some [0x81, 0x82, 0x01, 0x02, 0x03, 0x04, 0x69, 0x6B]
   \<and> (\<exists>header masked.
         [0x81, 0x82, 0x01, 0x02, 0x03, 0x04, 0x69, 0x6B] = [] @ header @ [0x01, 0x02, 0x03, 0x04] @ masked
         \<and> length header = 2
         \<and> header ! 1 AND 0x80 = 0x80
         \<and> xorMask [0x01, 0x02, 0x03, 0x04] masked = stringToBytes ''hi'')"
proof -
  have l: "length [0x01, 0x02, 0x03, 0x04 :: byte] = 4" by simp
  have s: "sendWebSocketFrame [] [0x01, 0x02, 0x03, 0x04] ''hi'' =
        Some [0x81, 0x82, 0x01, 0x02, 0x03, 0x04, 0x69, 0x6B]"
    by code_simp
  show ?thesis
    using client_frame_is_masked [OF l s] l s by auto
qed

lemma readLong_eight:
  "readLong 8 len (b1 # b2 # b3 # b4 # b5 # b6 # b7 # b8 # bs, e) =
     Got (foldl (\<lambda>l b. wrapLong (push_bit 8 l) OR uint b) len [b1, b2, b3, b4, b5, b6, b7, b8],
          (bs, e))"
proof -
  have n: "(8::nat) = Suc (Suc (Suc (Suc (Suc (Suc (Suc (Suc 0)))))))" by simp
  show ?thesis
    by (subst n) (simp only: readLong.simps readByte.simps rd.case prod.case foldl_Cons foldl_Nil)
qed

lemma readHeader_huge:
  "readHeader ([0x81, 0x7F, 0, 0, 0, 0, 0x7F, 0xFF, 0xFF, 0xFF], e) =
     Got (Some \<lparr>fh_opcode = 1, fh_masked = False, fh_payloadLength = 2147483647,
                fh_maskKey = None, fh_rest = ([], e)\<rparr>)"
  by (simp add: readHeader_def rdBind_def readLength_def readLong_eight wrapLong_def)

lemma readHeader_sixteen_mebibytes:
  "readHeader ([0x81, 0x7F, 0, 0, 0, 0, 0x01, 0, 0, 0], e) =
     Got (Some \<lparr>fh_opcode = 1, fh_masked = False, fh_payloadLength = 16777216,
                fh_maskKey = None, fh_rest = ([], e)\<rparr>)"
  by (simp add: readHeader_def rdBind_def readLength_def readLong_eight wrapLong_def)

lemma readHeader_negative:
  "readHeader ([0x81, 0x7F, 0, 0, 0, 0, 0x80, 0, 0, 0], e) =
     Got (Some \<lparr>fh_opcode = 1, fh_masked = False, fh_payloadLength = 2147483648,
                fh_maskKey = None, fh_rest = ([], e)\<rparr>)"
  by (simp add: readHeader_def rdBind_def readLength_def readLong_eight wrapLong_def)

text \<open>
  The claim C2 as stated fails: the decoder compares the declared length with no
  maximum. A ten-byte input that declares a payload of \<open>2\<^sup>3\<^sup>1 - 1\<close> bytes is neither
  rejected nor capped: on a runtime that can allocate at most 512 MiB the array of that
  size is asked for and the decoder ends with the \<^verbatim>\<open>OutOfMemoryError\<close>. A ten-byte input
  that declares 16 MiB is accepted: the array is allocated at that size and, the stream
  being at its end, returned as a string of 16777216 NUL characters.
\<close>

theorem decoder_unbounded_counterexample:
  "readWebSocketFrame \<lparr>heapLimit = 536870912, decodeMalformed = (\<lambda>bs. [])\<rparr>
       ([0x81, 0x7F, 0, 0, 0, 0, 0x7F, 0xFF, 0xFF, 0xFF], EndOfStream) [] =
     Some (OutOfMemory 2147483647, [])
   \<and> readWebSocketFrame \<lparr>heapLimit = 536870912, decodeMalformed = (\<lambda>bs. [])\<rparr>
       ([0x81, 0x7F, 0, 0, 0, 0, 0x01, 0, 0, 0], EndOfStream) [] =
     Some (Text (replicate 16777216 (CHR 0x00)) ([], EndOfStream), [])"
proof -
  let ?vm = "\<lparr>heapLimit = 536870912, decodeMalformed = (\<lambda>bs. [])\<rparr>"
  have a: "readWebSocketFrame ?vm ([0x81, 0x7F, 0, 0, 0, 0, 0x7F, 0xFF, 0xFF, 0xFF], EndOfStream) [] =
     Some (OutOfMemory 2147483647, [])"
    by (subst readWebSocketFrame_too_large [OF readHeader_huge]) (simp_all add: longToInt_id)
  have b: "readWebSocketFrame ?vm ([0x81, 0x7F, 0, 0, 0, 0, 0x01, 0, 0, 0], EndOfStream) [] =
     Some (Text (replicate 16777216 (CHR 0x00)) ([], EndOfStream), [])"
    by (subst readWebSocketFrame_data [OF readHeader_sixteen_mebibytes])
       (simp_all add: decodeUtf8_zeros)
  from a b show ?thesis by simp
qed

text \<open>
  Claim C2, as the code has it. For a header that is read whole, the size of the payload
  array is \<^verbatim>\<open>payloadLength.toInt()\<close>, whatever that number is. A negative number is the
  only one refused: the allocation throws and the decoder returns \<^verbatim>\<open>null\<close>. A number
  larger than the runtime can allocate ends in an \<^verbatim>\<open>OutOfMemoryError\<close> that leaves the
  decoder. For every other declared length up to \<open>2\<^sup>3\<^sup>1 - 1\<close> the array is allocated at the
  declared size: a data frame returns the payload when its bytes arrive, returns what
  arrived padded with zeros to the declared length when the stream ends first, and
  returns \<^verbatim>\<open>null\<close> when a read throws first.
\<close>

theorem decoder_allocates_declared_length:
  assumes h: "readHeader input = Got (Some h)"
  shows "(longToInt (fh_payloadLength h) < 0 \<longrightarrow>
            readWebSocketFrame vm input output = Some (Null, output))
       \<and> (int (heapLimit vm) < longToInt (fh_payloadLength h) \<longrightarrow>
            readWebSocketFrame vm input output =
              Some (OutOfMemory (nat (longToInt (fh_payloadLength h))), output))
       \<and> (0 \<le> fh_payloadLength h \<and> fh_payloadLength h \<le> 2147483647
            \<and> fh_payloadLength h \<le> int (heapLimit vm)
            \<and> fh_opcode h \<noteq> 8 \<and> fh_opcode h \<noteq> 9 \<and> fh_opcode h \<noteq> 10
            \<and> (nat (fh_payloadLength h) \<le> length (fst (fh_rest h))
                 \<or> snd (fh_rest h) = EndOfStream) \<longrightarrow>
            readWebSocketFrame vm input output =
              Some (Text (decodeUtf8 vm
                      ((case fh_maskKey h of None \<Rightarrow> (\<lambda>raw. raw) | Some maskKey \<Rightarrow> xorMask maskKey)
                         (take (nat (fh_payloadLength h)) (fst (fh_rest h))
                            @ replicate (nat (fh_payloadLength h) - length (fst (fh_rest h))) 0)))
                      (drop (nat (fh_payloadLength h)) (fst (fh_rest h)), snd (fh_rest h)),
                    output))
       \<and> (0 \<le> fh_payloadLength h \<and> fh_payloadLength h \<le> 2147483647
            \<and> fh_payloadLength h \<le> int (heapLimit vm)
            \<and> length (fst (fh_rest h)) < nat (fh_payloadLength h)
            \<and> snd (fh_rest h) = ReadThrows \<longrightarrow>
            readWebSocketFrame vm input output = Some (Null, output))"
  using readWebSocketFrame_negative [OF h, of vm "output"]
        readWebSocketFrame_too_large [OF h, of vm "output"]
        readWebSocketFrame_data [OF h, of vm "output"]
        readWebSocketFrame_read_throws [OF h, of vm "output"]
  by simp

theorem decoder_allocates_declared_length_witness:
  "readHeader ([0x81, 0x7F, 0, 0, 0, 0, 0x80, 0, 0, 0], ReadThrows) =
     Got (Some \<lparr>fh_opcode = 1, fh_masked = False, fh_payloadLength = 2147483648,
                fh_maskKey = None, fh_rest = ([], ReadThrows)\<rparr>)
   \<and> longToInt 2147483648 < 0
   \<and> readWebSocketFrame exampleVm ([0x81, 0x7F, 0, 0, 0, 0, 0x80, 0, 0, 0], ReadThrows) [] =
     Some (Null, [])
   \<and> readHeader ([0x81, 0x7F, 0, 0, 0, 0, 0x7F, 0xFF, 0xFF, 0xFF], ReadThrows) =
     Got (Some \<lparr>fh_opcode = 1, fh_masked = False, fh_payloadLength = 2147483647,
                fh_maskKey = None, fh_rest = ([], ReadThrows)\<rparr>)
   \<and> int (heapLimit exampleVm) < longToInt 2147483647
   \<and> readWebSocketFrame exampleVm ([0x81, 0x7F, 0, 0, 0, 0, 0x7F, 0xFF, 0xFF, 0xFF], ReadThrows) [] =
     Some (OutOfMemory 2147483647, [])
   \<and> readHeader ([0x81, 0x7F, 0, 0, 0, 0, 0x01, 0, 0, 0], EndOfStream) =
     Got (Some \<lparr>fh_opcode = 1, fh_masked = False, fh_payloadLength = 16777216,
                fh_maskKey = None, fh_rest = ([], EndOfStream)\<rparr>)
   \<and> (16777216 :: int) \<le> int (heapLimit exampleVm)
   \<and> readWebSocketFrame exampleVm ([0x81, 0x7F, 0, 0, 0, 0, 0x01, 0, 0, 0], EndOfStream) [] =
     Some (Text (decodeUtf8 exampleVm (replicate 16777216 0)) ([], EndOfStream), [])
   \<and> readHeader ([0x81, 0x7F, 0, 0, 0, 0, 0x01, 0, 0, 0], ReadThrows) =
     Got (Some \<lparr>fh_opcode = 1, fh_masked = False, fh_payloadLength = 16777216,
                fh_maskKey = None, fh_rest = ([], ReadThrows)\<rparr>)
   \<and> readWebSocketFrame exampleVm ([0x81, 0x7F, 0, 0, 0, 0, 0x01, 0, 0, 0], ReadThrows) [] =
     Some (Null, [])"
proof -
  have n: "longToInt 2147483648 < 0" "longToInt 2147483647 = 2147483647"
    by (simp_all add: longToInt_def)
  have heap: "heapLimit exampleVm = 536870912" by (simp add: exampleVm_def)
  show ?thesis
    using decoder_allocates_declared_length [OF readHeader_negative [of ReadThrows], of exampleVm "[]"]
          decoder_allocates_declared_length [OF readHeader_huge [of ReadThrows], of exampleVm "[]"]
          decoder_allocates_declared_length [OF readHeader_sixteen_mebibytes [of EndOfStream], of exampleVm "[]"]
          decoder_allocates_declared_length [OF readHeader_sixteen_mebibytes [of ReadThrows], of exampleVm "[]"]
          n heap readHeader_negative [of ReadThrows] readHeader_huge [of ReadThrows]
          readHeader_sixteen_mebibytes [of EndOfStream] readHeader_sixteen_mebibytes [of ReadThrows]
    by simp
qed

section \<open>Properties of the token store and the connect attempt\<close>

lemma uint_len_byte:
  assumes "n \<le> 125"
  shows "uint (of_nat n :: byte) = int n"
proof -
  have "unat (of_nat n :: byte) = n" using assms by (simp add: unat_of_nat)
  then show ?thesis by (simp add: uint_nat)
qed

lemma low7: 
  assumes "n \<le> 125"
  shows "int n AND 0x7F = int n" "int n AND 0x80 = 0"
proof -
  have t: "take_bit 7 (int n) = int n" using assms by (simp add: take_bit_int_eq_self)
  have m7: "(0x7F :: int) = mask 7" by (simp add: mask_eq_exp_minus_1)
  show "int n AND 0x7F = int n" unfolding m7 using t by (simp add: take_bit_eq_mask)
  have nb: "\<not> bit (int n) 7" using t by (metis bit_take_bit_iff less_irrefl)
  have "int n AND 2 ^ 7 = 0" by (subst and_exp_eq_0_iff_not_bit) (rule nb)
  then show "int n AND 0x80 = 0" by simp
qed

lemma readHeader_textFrame:
  assumes "length s \<le> 125"
  shows "readHeader (textFrame s @ rest, e) =
     Got (Some \<lparr>fh_opcode = 1, fh_masked = False, fh_payloadLength = int (length s),
                fh_maskKey = None, fh_rest = (stringToBytes s @ rest, e)\<rparr>)"
proof -
  have ne: "int (length s) \<noteq> 126" "int (length s) \<noteq> 127" using assms by simp_all
  show ?thesis
    using ne
    by (simp add: textFrame_def readHeader_def rdBind_def readLength_def
          uint_len_byte [OF assms] low7 [OF assms])
qed

lemma readWebSocketFrame_textFrame:
  assumes "length s \<le> 125" "wellFormedUtf8 (stringToBytes s)" "length s \<le> heapLimit vm"
  shows "readWebSocketFrame vm (textFrame s, e) [] = Some (Text s ([], e), [])"
proof -
  have h: "readHeader (textFrame s, e) =
     Got (Some \<lparr>fh_opcode = 1, fh_masked = False, fh_payloadLength = int (length s),
                fh_maskKey = None, fh_rest = (stringToBytes s, e)\<rparr>)"
    using readHeader_textFrame [OF assms(1), of "[]"] by simp
  show ?thesis
    using assms
    by (subst readWebSocketFrame_data [OF h]) (simp_all add: decodeUtf8_stringToBytes)
qed

lemma example_lengths: "length unauthorizedExample \<le> 125" "length connectExample \<le> 125"
  by (simp_all add: unauthorizedExample_def connectExample_def)

lemma example_wellFormed:
  "wellFormedUtf8 (stringToBytes unauthorizedExample)"
  "wellFormedUtf8 (stringToBytes connectExample)"
  by code_simp+

lemma example_kinds:
  "classify unauthorizedExample = PairingDenied"
  "classify connectExample = PairingSuccess"
  "findToken connectExample = Some ''99887766''"
  "isNotBlank ''99887766''"
  "includesStr ''HTTP/1.1 101 Switching Protocols'' ''101''"
  by code_simp+

lemma handshake_answering:
  assumes "length msg \<le> 125" "wellFormedUtf8 (stringToBytes msg)" "length msg \<le> heapLimit vm"
  shows "handshake vm st port path (answering msg) =
          (FirstMessage msg,
           (emit [UpgradeRequest port path] st)
             \<lparr>rawWebSocket := Some \<lparr>conn_port = port, conn_input = ([], EndOfStream),
                                    conn_output = []\<rparr>\<rparr>)"
  by (simp add: handshake_def answering_def example_kinds
        readWebSocketFrame_textFrame [OF assms] Let_def)


lemma tokenRepository_emit [simp]: "tokenRepository (emit es st) = tokenRepository st"
  by (simp add: emit_def)

lemma tokenRepository_cancelTimeout [simp]: "tokenRepository (cancelTimeout st) = tokenRepository st"
  by (simp add: cancelTimeout_def split: option.splits)



lemma getToken_setLastConnectedIp [simp]:
  "getToken (setLastConnectedIp ip p) x = getToken p x"
  by (simp add: getToken_def setLastConnectedIp_def KEY_LAST_IP_def KEY_PREFIX_def)




lemma tokenRepository_bodies [simp]:
  "tokenRepository (successBody ip cb st) = tokenRepository st"
  "tokenRepository (rejectedBody cb st) = tokenRepository st"
  "tokenRepository (exhaustedBody e cb st) = tokenRepository st"
  "tokenRepository (exhaustedPrelude st) = tokenRepository st"
  "tokenRepository (timeoutBody cb st) = tokenRepository st"
  by (simp_all add: successBody_def rejectedBody_def exhaustedBody_def exhaustedPrelude_def
        timeoutBody_def Let_def split: option.splits)


















lemma example_heap:
  "length unauthorizedExample \<le> heapLimit exampleVm"
  "length connectExample \<le> heapLimit exampleVm"
  "length mixedExample \<le> heapLimit exampleVm"
  by (simp_all add: exampleVm_def unauthorizedExample_def connectExample_def mixedExample_def)

lemma mixed_facts:
  "length mixedExample \<le> 125"
  "wellFormedUtf8 (stringToBytes mixedExample)"
  "includesStr mixedExample ''ms.channel.unauthorized''"
  "classify mixedExample = PairingSuccess"
  "findToken mixedExample = None"
  by code_simp+


lemmas handshake_examples =
  handshake_answering [OF example_lengths(1) example_wellFormed(1) example_heap(1)]
  handshake_answering [OF example_lengths(2) example_wellFormed(2) example_heap(2)]
  handshake_answering [OF mixed_facts(1) mixed_facts(2) example_heap(3)]





lemmas body_defs =
  thrown_def successPrelude_def rejectedPrelude_def exhaustedPrelude_def successBody_def
  rejectedBody_def exhaustedBody_def timeoutBody_def cancelTimeout_def emit_def Let_def

lemmas step_defs = step_def workerStep_def timerStep_def

lemma exampleRun_begin:
  "exampleRun wssPeer wsPeer schedule =
     foldl (step exampleVm ''10.0.0.5'' (basePath @ ''&token=12345678'') 0 wssPeer wsPeer)
       \<lparr>shared = \<lparr>tokenRepository = [KEY_PREFIX @ ''10.0.0.5'' \<mapsto> ''12345678''],
                   isConnecting = True, pendingConnectionCallback = Some 7,
                   connectionTimeoutRunnable = Some 0, nextRunnable = Suc 0,
                   looperQueue = [0], rawWebSocket = None, effects = []\<rparr>,
        worker = Attempting Wss, timer = Posted\<rparr> schedule"
  by (simp add: exampleRun_def connect_def connect_begin_def restingClient_def
        client_disconnect_def connectPath_def getToken_def Let_def)











text \<open>
  Claim C4, evaluated on a schedule in which the watchdog's time comes while the worker
  handles the TV's \<^verbatim>\<open>ms.channel.connect\<close>. The guard of the watchdog and the guard of the
  success branch both read \<open>pendingConnectionCallback\<close> before either body has set it to
  \<^verbatim>\<open>null\<close>, so both bodies run: the caller's callback is invoked twice, first with the
  time-out failure, then with success. Both threads have then ended.
\<close>

theorem connect_callback_invoked_twice:
  "callbacksOf (shared (exampleRun (answering connectExample) (ConnectFails None) racingSchedule))
     = [InvokeCallback 7 False (Some timeoutMessage), InvokeCallback 7 True None]
   \<and> worker (exampleRun (answering connectExample) (ConnectFails None) racingSchedule) = Finished Wss
   \<and> timer (exampleRun (answering connectExample) (ConnectFails None) racingSchedule) = Over"
  unfolding exampleRun_begin racingSchedule_def
  by (simp add: step_defs handshake_examples example_kinds body_defs callbacksOf_def)

end
